theory Spec2Isabelle
  imports Main "HOL-Library.AList"
begin

section \<open>Data model\<close>

text \<open>
  The chat service of \<^verbatim>\<open>src/services/chat.ts\<close>: a module-level session state
  (\<^verbatim>\<open>chats\<close>, \<^verbatim>\<open>activeChat\<close>, \<^verbatim>\<open>messages\<close>, \<^verbatim>\<open>ongoingAiMessages\<close>) kept beside a
  persistent store of chats and messages.

  A JavaScript number that may be \<^verbatim>\<open>undefined\<close> at run time (an \<^verbatim>\<open>id?\<close> field, or the
  result of the unchecked \<^verbatim>\<open>x.id!\<close>) is a \<open>nat option\<close>. A \<^verbatim>\<open>Date\<close> is its
  \<^verbatim>\<open>getTime()\<close>, an integer. The continuation token is the \<^verbatim>\<open>number[]\<close> of the
  completion API, always truthy when present.
\<close>

type_synonym key = "nat option"
type_synonym addr = nat
type_synonym token = "nat list"

datatype Role = System | User | Assistant

record Chat =
  chat_id :: key
  chat_name :: string
  chat_model :: string
  chat_createdAt :: int

record Message =
  msg_id :: key
  msg_chatId :: key
  msg_role :: Role
  msg_content :: string
  msg_meta :: "string option"
  msg_context :: "token option"
  msg_createdAt :: int

text \<open>Modelled from the spec: the persistent store behind \<^verbatim>\<open>db\<close> (\<^verbatim>\<open>./database\<close> is not
  among the sources). Two collections keyed by generated numeric identifiers, rows kept in
  key order; \<open>chats_key\<close> and \<open>messages_key\<close> are the last identifiers generated, and
  clearing a collection does not reset them.\<close>

record Store =
  chats_tbl :: "Chat list"
  messages_tbl :: "Message list"
  chats_key :: nat
  messages_key :: nat

datatype exn = StorageError string | TransportError | TypeError

datatype 'a outcome = Return 'a | Throw exn

datatype log_entry = ConsoleError string | ConsoleWarn string | ConsoleLog string

text \<open>A call of \<^verbatim>\<open>generate\<close>: model, prompt, continuation token, and the chat id its
  two callbacks are bound to.\<close>

record Request =
  req_model :: string
  req_prompt :: string
  req_context :: "token option"
  req_chatId :: key

text \<open>
  \<^verbatim>\<open>handleAiPartialResponse\<close> calls \<^verbatim>\<open>startAiMessage\<close> and \<^verbatim>\<open>appendToAiMessage\<close> without
  awaiting them (lines 201 to 203): each runs to its first \<^verbatim>\<open>await\<close> and the rest of it is
  pending when the callback returns. A pending task holds what the rest needs: for
  \<^verbatim>\<open>startAiMessage\<close> the message it built and the chat id; for \<^verbatim>\<open>appendToAiMessage\<close> the
  message id and the content passed to \<^verbatim>\<open>updateMessage\<close>, and the chat id.
\<close>

datatype task = StartTask Message key | AppendTask key string key

text \<open>
  The world: the store, the two object heaps (Chat and Message objects are shared by
  reference between the session's fields, so the session holds addresses), the four
  session fields of lines 57 to 60, the console, the calls made to the completion
  transport, the clock read by \<^verbatim>\<open>new Date()\<close>, and the outcomes of the upcoming external
  calls (\<open>True\<close>: the call rejects; an exhausted list: every call succeeds).

  An object the source builds locally is a value until the source stores a reference to
  it in the session; it is allocated on the heap at that point.

  Every operation of the returned interface, and \<^verbatim>\<open>handleAiCompletion\<close>, runs to completion
  before the next event; within one operation \<^verbatim>\<open>activeChat.value\<close> therefore stays the
  reference read at its start. The two calls that the source itself leaves un-awaited are
  the exception: their rests are the \<open>pending\<close> tasks of the world, oldest first, and
  other events can come before they settle.
\<close>

record World =
  store :: Store
  failures :: "bool list"
  clock :: int
  chat_heap :: "Chat list"
  msg_heap :: "Message list"
  chats :: "addr list"
  activeChat :: "addr option"
  messages :: "addr list"
  ongoingAiMessages :: "(key \<times> addr) list"
  console :: "log_entry list"
  requests :: "Request list"
  pending :: "task list"

type_synonym 'a io = "World \<Rightarrow> 'a outcome \<times> World"

section \<open>Control flow: await, try and catch\<close>

definition ret :: "'a \<Rightarrow> 'a io" where
  "ret x w = (Return x, w)"

definition exec :: "(World \<Rightarrow> World) \<Rightarrow> unit io" where
  "exec f w = (Return (), f w)"

definition await :: "'a io \<Rightarrow> ('a \<Rightarrow> 'b io) \<Rightarrow> 'b io" where
  "await m f w = (case m w of (Throw e, w1) \<Rightarrow> (Throw e, w1) | (Return x, w1) \<Rightarrow> f x w1)"

definition try_catch :: "'a io \<Rightarrow> (exn \<Rightarrow> 'a io) \<Rightarrow> 'a io" where
  "try_catch body handler w =
     (case body w of (Throw e, w1) \<Rightarrow> handler e w1 | (Return x, w1) \<Rightarrow> (Return x, w1))"

definition console_error :: "string \<Rightarrow> World \<Rightarrow> World" where
  "console_error s w = w\<lparr>console := console w @ [ConsoleError s]\<rparr>"

definition console_warn :: "string \<Rightarrow> World \<Rightarrow> World" where
  "console_warn s w = w\<lparr>console := console w @ [ConsoleWarn s]\<rparr>"

definition console_log :: "string \<Rightarrow> World \<Rightarrow> World" where
  "console_log s w = w\<lparr>console := console w @ [ConsoleLog s]\<rparr>"

section \<open>Database layer\<close>

text \<open>Every call of the database layer first takes its outcome from \<open>failures\<close>.\<close>

definition store_call :: "string \<Rightarrow> unit io" where
  "store_call opname w =
     (case failures w of
        [] \<Rightarrow> (Return (), w)
      | b # bs \<Rightarrow> (if b then Throw (StorageError opname) else Return (), w\<lparr>failures := bs\<rparr>))"

definition alloc_chat :: "Chat \<Rightarrow> World \<Rightarrow> addr \<times> World" where
  "alloc_chat c w = (length (chat_heap w), w\<lparr>chat_heap := chat_heap w @ [c]\<rparr>)"

definition alloc_chats :: "Chat list \<Rightarrow> World \<Rightarrow> addr list \<times> World" where
  "alloc_chats cs w =
     ([length (chat_heap w) ..< length (chat_heap w) + length cs],
      w\<lparr>chat_heap := chat_heap w @ cs\<rparr>)"

definition alloc_msg :: "Message \<Rightarrow> World \<Rightarrow> addr \<times> World" where
  "alloc_msg m w = (length (msg_heap w), w\<lparr>msg_heap := msg_heap w @ [m]\<rparr>)"

definition alloc_msgs :: "Message list \<Rightarrow> World \<Rightarrow> addr list \<times> World" where
  "alloc_msgs ms w =
     ([length (msg_heap w) ..< length (msg_heap w) + length ms],
      w\<lparr>msg_heap := msg_heap w @ ms\<rparr>)"

text \<open>Modelled from the spec: the store's operations (\<^verbatim>\<open>db.chats\<close>, \<^verbatim>\<open>db.messages\<close>).
  Reads return fresh objects. Creation assigns the next generated identifier to the stored
  record, writes it into the caller's object as its \<^verbatim>\<open>id\<close>, and returns it: after an accepted
  \<^verbatim>\<open>add\<close> the caller's object is the one it passed with the returned key as id, which is how
  the operations below allocate it. Updating or deleting under an identifier with no record
  changes nothing and is no error. A call whose key is \<^verbatim>\<open>undefined\<close> rejects.\<close>

definition find_chat :: "nat \<Rightarrow> Store \<Rightarrow> Chat option" where
  "find_chat k s = find (\<lambda>c. chat_id c = Some k) (chats_tbl s)"

definition find_message :: "nat \<Rightarrow> Store \<Rightarrow> Message option" where
  "find_message k s = find (\<lambda>m. msg_id m = Some k) (messages_tbl s)"

definition messages_of :: "nat \<Rightarrow> Store \<Rightarrow> Message list" where
  "messages_of k s = filter (\<lambda>m. msg_chatId m = Some k) (messages_tbl s)"

definition dbLayer_getAllChats :: "addr list io" where
  "dbLayer_getAllChats =
     await (store_call ''getAllChats'')
       (\<lambda>_ w. case alloc_chats (chats_tbl (store w)) w of (as, w1) \<Rightarrow> (Return as, w1))"

definition dbLayer_getChat :: "key \<Rightarrow> addr option io" where
  "dbLayer_getChat chatId =
     await (store_call ''getChat'')
       (\<lambda>_ w. case chatId of
                None \<Rightarrow> (Throw (StorageError ''getChat''), w)
              | Some k \<Rightarrow>
                  (case find_chat k (store w) of
                     None \<Rightarrow> (Return None, w)
                   | Some c \<Rightarrow> (case alloc_chat c w of (a, w1) \<Rightarrow> (Return (Some a), w1))))"

definition dbLayer_getMessages :: "key \<Rightarrow> addr list io" where
  "dbLayer_getMessages chatId =
     await (store_call ''getMessages'')
       (\<lambda>_ w. case chatId of
                None \<Rightarrow> (Throw (StorageError ''getMessages''), w)
              | Some k \<Rightarrow>
                  (case alloc_msgs (messages_of k (store w)) w of (as, w1) \<Rightarrow> (Return as, w1)))"

definition dbLayer_addChat :: "Chat \<Rightarrow> nat io" where
  "dbLayer_addChat chat =
     await (store_call ''addChat'')
       (\<lambda>_ w. let s = store w; k = chats_key s + 1 in
               (Return k,
                w\<lparr>store := s\<lparr>chats_tbl := chats_tbl s @ [chat\<lparr>chat_id := Some k\<rparr>],
                               chats_key := k\<rparr>\<rparr>))"

definition dbLayer_updateChat :: "key \<Rightarrow> (Chat \<Rightarrow> Chat) \<Rightarrow> unit io" where
  "dbLayer_updateChat chatId updates =
     await (store_call ''updateChat'')
       (\<lambda>_ w. case chatId of
                None \<Rightarrow> (Throw (StorageError ''updateChat''), w)
              | Some k \<Rightarrow>
                  (Return (),
                   w\<lparr>store := (store w)\<lparr>chats_tbl :=
                        map (\<lambda>c. if chat_id c = Some k then updates c else c)
                          (chats_tbl (store w))\<rparr>\<rparr>))"

definition dbLayer_addMessage :: "Message \<Rightarrow> nat io" where
  "dbLayer_addMessage message =
     await (store_call ''addMessage'')
       (\<lambda>_ w. let s = store w; k = messages_key s + 1 in
               (Return k,
                w\<lparr>store := s\<lparr>messages_tbl := messages_tbl s @ [message\<lparr>msg_id := Some k\<rparr>],
                               messages_key := k\<rparr>\<rparr>))"

definition dbLayer_updateMessage :: "key \<Rightarrow> (Message \<Rightarrow> Message) \<Rightarrow> unit io" where
  "dbLayer_updateMessage messageId updates =
     await (store_call ''updateMessage'')
       (\<lambda>_ w. case messageId of
                None \<Rightarrow> (Throw (StorageError ''updateMessage''), w)
              | Some k \<Rightarrow>
                  (Return (),
                   w\<lparr>store := (store w)\<lparr>messages_tbl :=
                        map (\<lambda>m. if msg_id m = Some k then updates m else m)
                          (messages_tbl (store w))\<rparr>\<rparr>))"

definition dbLayer_deleteChat :: "key \<Rightarrow> unit io" where
  "dbLayer_deleteChat chatId =
     await (store_call ''deleteChat'')
       (\<lambda>_ w. case chatId of
                None \<Rightarrow> (Throw (StorageError ''deleteChat''), w)
              | Some k \<Rightarrow>
                  (Return (),
                   w\<lparr>store := (store w)\<lparr>chats_tbl :=
                        filter (\<lambda>c. chat_id c \<noteq> Some k) (chats_tbl (store w))\<rparr>\<rparr>))"

definition dbLayer_deleteMessagesOfChat :: "key \<Rightarrow> unit io" where
  "dbLayer_deleteMessagesOfChat chatId =
     await (store_call ''deleteMessagesOfChat'')
       (\<lambda>_ w. case chatId of
                None \<Rightarrow> (Throw (StorageError ''deleteMessagesOfChat''), w)
              | Some k \<Rightarrow>
                  (Return (),
                   w\<lparr>store := (store w)\<lparr>messages_tbl :=
                        filter (\<lambda>m. msg_chatId m \<noteq> Some k) (messages_tbl (store w))\<rparr>\<rparr>))"

definition dbLayer_clearChats :: "unit io" where
  "dbLayer_clearChats =
     await (store_call ''clearChats'')
       (\<lambda>_ w. (Return (), w\<lparr>store := (store w)\<lparr>chats_tbl := []\<rparr>\<rparr>))"

definition dbLayer_clearMessages :: "unit io" where
  "dbLayer_clearMessages =
     await (store_call ''clearMessages'')
       (\<lambda>_ w. (Return (), w\<lparr>store := (store w)\<lparr>messages_tbl := []\<rparr>\<rparr>))"

text \<open>Modelled from the spec: the completion transport \<^verbatim>\<open>generate\<close> of \<^verbatim>\<open>./useAI.ts\<close>, a
  streaming call whose partial and completion callbacks arrive later as events of their
  own. The call is recorded; it may reject like any external call.\<close>

definition generate :: "string \<Rightarrow> string \<Rightarrow> token option \<Rightarrow> key \<Rightarrow> unit io" where
  "generate model prompt context chatId w =
     (case failures w of
        [] \<Rightarrow> (Return (),
               w\<lparr>requests := requests w @
                   [\<lparr>req_model = model, req_prompt = prompt, req_context = context,
                     req_chatId = chatId\<rparr>]\<rparr>)
      | b # bs \<Rightarrow>
          (if b then (Throw TransportError, w\<lparr>failures := bs\<rparr>)
           else (Return (),
                 w\<lparr>failures := bs,
                   requests := requests w @
                     [\<lparr>req_model = model, req_prompt = prompt, req_context = context,
                       req_chatId = chatId\<rparr>]\<rparr>)))"

section \<open>Session state and its derived views\<close>

definition chat_at :: "World \<Rightarrow> addr \<Rightarrow> Chat" where
  "chat_at w a = chat_heap w ! a"

definition msg_at :: "World \<Rightarrow> addr \<Rightarrow> Message" where
  "msg_at w a = msg_heap w ! a"

text \<open>\<^verbatim>\<open>[...chats.value].sort((a, b) => b.createdAt.getTime() - a.createdAt.getTime())\<close>:
  a stable sort, newest first.\<close>

definition sortedChats :: "World \<Rightarrow> addr list" where
  "sortedChats w = sort_key (\<lambda>a. - chat_createdAt (chat_at w a)) (chats w)"

definition hasActiveChat :: "World \<Rightarrow> bool" where
  "hasActiveChat w = (activeChat w \<noteq> None)"

definition hasMessages :: "World \<Rightarrow> bool" where
  "hasMessages w = (length (messages w) > 0)"

definition setActiveChat :: "addr \<Rightarrow> World \<Rightarrow> World" where
  "setActiveChat chat w = w\<lparr>activeChat := Some chat\<rparr>"

definition setMessages :: "addr list \<Rightarrow> World \<Rightarrow> World" where
  "setMessages msgs w = w\<lparr>messages := msgs\<rparr>"

text \<open>\<^verbatim>\<open>activeChat.value?.id\<close>: \<^verbatim>\<open>undefined\<close> without an active chat.\<close>

definition active_id :: "World \<Rightarrow> key" where
  "active_id w = (case activeChat w of None \<Rightarrow> None | Some a \<Rightarrow> chat_id (chat_at w a))"

section \<open>Operations\<close>

definition switchChat :: "key \<Rightarrow> unit io" where
  "switchChat chatId =
     try_catch
       (await (dbLayer_getChat chatId) (\<lambda>chat.
          case chat of
            Some c \<Rightarrow>
              await (exec (setActiveChat c)) (\<lambda>_.
              await (dbLayer_getMessages chatId) (\<lambda>chatMessages.
              exec (setMessages chatMessages)))
          | None \<Rightarrow> ret ()))
       (\<lambda>error. exec (console_error ''Failed to switch to chat with ID''))"

definition switchModel :: "string \<Rightarrow> unit io" where
  "switchModel model w =
     (case activeChat w of
        None \<Rightarrow> (Return (), w)
      | Some ac \<Rightarrow>
          if hasMessages w then (Return (), w)
          else
            try_catch
              (await (dbLayer_updateChat (chat_id (chat_at w ac)) (\<lambda>c. c\<lparr>chat_model := model\<rparr>))
                 (\<lambda>_. exec (\<lambda>w1. w1\<lparr>chat_heap :=
                                      (chat_heap w1)[ac := (chat_at w1 ac)\<lparr>chat_model := model\<rparr>]\<rparr>)))
              (\<lambda>error. exec (console_error ''Failed to switch model''))
              w)"

definition startNewChat :: "string \<Rightarrow> string \<Rightarrow> unit io" where
  "startNewChat name model w =
     (let newChat = \<lparr>chat_id = None, chat_name = name, chat_model = model,
                     chat_createdAt = clock w\<rparr>
      in try_catch
           (await (dbLayer_addChat newChat) (\<lambda>k w1.
              case alloc_chat (newChat\<lparr>chat_id := Some k\<rparr>) w1 of
                (a, w2) \<Rightarrow>
                  (Return (), setMessages [] (setActiveChat a (w2\<lparr>chats := chats w2 @ [a]\<rparr>)))))
           (\<lambda>error. exec (console_error ''Failed to start a new chat:''))
           w)"

definition initialize :: "unit io" where
  "initialize =
     try_catch
       (await dbLayer_getAllChats (\<lambda>cs.
        await (exec (\<lambda>w. w\<lparr>chats := cs\<rparr>)) (\<lambda>_ w.
          if length (chats w) > 0
          then (case sortedChats w of
                  [] \<Rightarrow> (Throw TypeError, w)
                | a # _ \<Rightarrow> switchChat (chat_id (chat_at w a)) w)
          else startNewChat ''New chat'' ''n/a'' w)))
       (\<lambda>error. exec (console_error ''Failed to initialize chats:''))"

text \<open>\<^verbatim>\<open>addSystemMessage\<close> does not use the key that \<^verbatim>\<open>dbLayer.addMessage\<close> returns (line 150);
  the message it pushes carries the id that the store wrote into it.\<close>

definition addSystemMessage :: "string \<Rightarrow> string option \<Rightarrow> unit io" where
  "addSystemMessage content meta w =
     (case activeChat w of
        None \<Rightarrow> (Return (), w)
      | Some ac \<Rightarrow>
          let message = \<lparr>msg_id = None, msg_chatId = chat_id (chat_at w ac), msg_role = System,
                         msg_content = content, msg_meta = meta, msg_context = None,
                         msg_createdAt = clock w\<rparr>
          in try_catch
               (await (dbLayer_addMessage message) (\<lambda>k w1.
                  case alloc_msg (message\<lparr>msg_id := Some k\<rparr>) w1 of
                    (a, w2) \<Rightarrow> (Return (), w2\<lparr>messages := messages w2 @ [a]\<rparr>)))
               (\<lambda>error. exec (console_error ''Failed to add system message:''))
               w)"

text \<open>\<^verbatim>\<open>messages.value.slice().reverse().find((msg) => msg.context)\<close>, then
  \<^verbatim>\<open>lastMessageWithContext?.context\<close>.\<close>

definition lastContext :: "World \<Rightarrow> token option" where
  "lastContext w =
     (case find (\<lambda>m. msg_context m \<noteq> None) (rev (map (msg_at w) (messages w))) of
        None \<Rightarrow> None
      | Some m \<Rightarrow> msg_context m)"

definition addUserMessage :: "string \<Rightarrow> unit io" where
  "addUserMessage content w =
     (case activeChat w of
        None \<Rightarrow> (Return (), console_warn ''There was no active chat.'' w)
      | Some ac \<Rightarrow>
          let currentChatId = chat_id (chat_at w ac) in
          try_catch
            (await (dbLayer_getMessages currentChatId) (\<lambda>ms.
             await (exec (setMessages ms)) (\<lambda>_ w1.
               let message = \<lparr>msg_id = None, msg_chatId = chat_id (chat_at w1 ac),
                              msg_role = User, msg_content = content, msg_meta = None,
                              msg_context = None, msg_createdAt = clock w1\<rparr>
               in await (dbLayer_addMessage message) (\<lambda>k w2.
                    case alloc_msg (message\<lparr>msg_id := Some k\<rparr>) w2 of
                      (a, w3) \<Rightarrow>
                        (let w4 = w3\<lparr>messages := messages w3 @ [a]\<rparr>;
                             w5 = console_log ''context'' w4;
                             w6 = console_log ''lastMessageWithContext'' w5
                         in generate (chat_model (chat_at w6 ac)) content (lastContext w6)
                              currentChatId w6)) w1)))
            (\<lambda>error. exec (console_error ''Failed to add user message:''))
            w)"

text \<open>\<^verbatim>\<open>startAiMessage\<close> as it is called, un-awaited: lines 266 to 271 build the message, the
  write of line 274 is issued, and the rest is pending.\<close>

definition startAiMessage :: "string \<Rightarrow> key \<Rightarrow> World \<Rightarrow> World" where
  "startAiMessage initialContent chatId w =
     (let message = \<lparr>msg_id = None, msg_chatId = chatId, msg_role = Assistant,
                     msg_content = initialContent, msg_meta = None, msg_context = None,
                     msg_createdAt = clock w\<rparr>
      in w\<lparr>pending := pending w @ [StartTask message chatId]\<rparr>)"

text \<open>The rest of \<^verbatim>\<open>startAiMessage\<close>, from the settling of the awaited write on (lines 274 to
  279).\<close>

definition startAiMessage_rest :: "Message \<Rightarrow> key \<Rightarrow> unit io" where
  "startAiMessage_rest message chatId =
     try_catch
       (await (dbLayer_addMessage message) (\<lambda>k w1.
          case alloc_msg (message\<lparr>msg_id := Some k\<rparr>) w1 of
            (a, w2) \<Rightarrow>
              (Return (),
               w2\<lparr>ongoingAiMessages := AList.update chatId a (ongoingAiMessages w2),
                  messages := messages w2 @ [a]\<rparr>)))
       (\<lambda>error. exec (console_error ''Failed to start AI message:''))"

text \<open>\<^verbatim>\<open>appendToAiMessage\<close> as it is called, un-awaited: the content is appended in memory
  (line 285), the write of line 287 is issued with the id and the content of that moment,
  and the rest is pending.\<close>

definition appendToAiMessage :: "string \<Rightarrow> key \<Rightarrow> World \<Rightarrow> World" where
  "appendToAiMessage content chatId w =
     (case map_of (ongoingAiMessages w) chatId of
        Some a \<Rightarrow>
          let w1 = w\<lparr>msg_heap :=
                      (msg_heap w)[a := (msg_at w a)\<lparr>msg_content := msg_content (msg_at w a) @ content\<rparr>]\<rparr>
          in w1\<lparr>pending := pending w1 @
                  [AppendTask (msg_id (msg_at w1 a)) (msg_content (msg_at w1 a)) chatId]\<rparr>
      | None \<Rightarrow> console_log ''No ongoing AI message?'' w)"

text \<open>The rest of \<^verbatim>\<open>appendToAiMessage\<close> (lines 287 to 291).\<close>

definition appendToAiMessage_rest :: "key \<Rightarrow> string \<Rightarrow> key \<Rightarrow> unit io" where
  "appendToAiMessage_rest messageId content chatId =
     try_catch
       (await (dbLayer_updateMessage messageId (\<lambda>m. m\<lparr>msg_content := content\<rparr>)) (\<lambda>_.
        await (dbLayer_getMessages chatId) (\<lambda>ms.
        exec (setMessages ms))))
       (\<lambda>error. exec (console_error ''Failed to append to AI message:''))"

definition handleAiPartialResponse :: "string \<Rightarrow> key \<Rightarrow> unit io" where
  "handleAiPartialResponse response chatId w =
     (case map_of (ongoingAiMessages w) chatId of
        Some _ \<Rightarrow> (Return (), appendToAiMessage response chatId w)
      | None \<Rightarrow> (Return (), startAiMessage response chatId w))"

text \<open>A pending task settles: its rest runs, to its end (the second \<^verbatim>\<open>await\<close> of
  \<^verbatim>\<open>appendToAiMessage\<close>, line 288, is no point where another event comes in). \<open>settle\<close> takes
  the oldest task; \<open>settle_all\<close> lets every pending task settle, oldest first.\<close>

fun resume :: "task \<Rightarrow> unit io" where
  "resume (StartTask message chatId) = startAiMessage_rest message chatId"
| "resume (AppendTask messageId content chatId) = appendToAiMessage_rest messageId content chatId"

definition settle :: "unit io" where
  "settle w = (case pending w of [] \<Rightarrow> (Return (), w) | t # ts \<Rightarrow> resume t (w\<lparr>pending := ts\<rparr>))"

fun settle_tasks :: "task list \<Rightarrow> World \<Rightarrow> World" where
  "settle_tasks [] w = w"
| "settle_tasks (t # ts) w = settle_tasks ts (snd (resume t w))"

definition settle_all :: "World \<Rightarrow> World" where
  "settle_all w = settle_tasks (pending w) (w\<lparr>pending := []\<rparr>)"

definition handleAiCompletion :: "token \<Rightarrow> key \<Rightarrow> unit io" where
  "handleAiCompletion context chatId w =
     (case map_of (ongoingAiMessages w) chatId of
        Some a \<Rightarrow>
          try_catch
            (await (dbLayer_updateMessage (msg_id (msg_at w a))
                      (\<lambda>m. m\<lparr>msg_context := Some context\<rparr>)) (\<lambda>_.
             exec (\<lambda>w1. console_log ''finalized message''
                          (w1\<lparr>ongoingAiMessages := AList.delete chatId (ongoingAiMessages w1)\<rparr>))))
            (\<lambda>error. exec (console_error ''Failed to finalize AI message:''))
            w
      | None \<Rightarrow> (Return (), console_error ''no ongoing message to finalize:'' w))"

definition wipeDatabase :: "unit io" where
  "wipeDatabase =
     try_catch
       (await dbLayer_clearChats (\<lambda>_.
        await dbLayer_clearMessages (\<lambda>_ w.
          let model = (case activeChat w of
                         None \<Rightarrow> ''none''
                       | Some a \<Rightarrow> chat_model (chat_at w a))
          in startNewChat ''new chat'' model
               (w\<lparr>chats := [], activeChat := None, messages := [], ongoingAiMessages := []\<rparr>))))
       (\<lambda>error. exec (console_error ''Failed to wipe the database:''))"

definition deleteChat :: "key \<Rightarrow> unit io" where
  "deleteChat chatId =
     try_catch
       (await (dbLayer_deleteChat chatId) (\<lambda>_.
        await (dbLayer_deleteMessagesOfChat chatId) (\<lambda>_.
        await (exec (\<lambda>w. w\<lparr>chats := filter (\<lambda>a. chat_id (chat_at w a) \<noteq> chatId) (chats w)\<rparr>))
          (\<lambda>_ w.
             if active_id w = chatId
             then (case sortedChats w of
                     a # _ \<Rightarrow> switchChat (chat_id (chat_at w a)) w
                   | [] \<Rightarrow>
                       (case activeChat w of
                          None \<Rightarrow> (Throw TypeError, w)
                        | Some ac \<Rightarrow> startNewChat ''new chat'' (chat_model (chat_at w ac)) w))
             else (Return (), w)))))
       (\<lambda>error. exec (console_error ''Failed to delete chat with ID''))"

section \<open>Events and runs\<close>

text \<open>What reaches the session: the eight operations of the returned interface, the two
  callbacks of the completion transport, and the environment (the clock advancing, the
  outcomes of the external calls to come, a pending task settling). A fragment comes in
  two ways: \<open>Arrives\<close> is the callback alone, its store work left pending; \<open>Partial\<close> is the
  callback followed by the settling of everything pending, so that nothing of it is left
  when the next event comes.\<close>

datatype event =
    Initialize
  | SwitchChat key
  | SwitchModel string
  | StartNewChat string string
  | AddSystemMessage string "string option"
  | AddUserMessage string
  | DeleteChat key
  | WipeDatabase
  | Partial string key
  | Arrives string key
  | Settle
  | Complete token key
  | Clock int
  | Outcomes "bool list"

fun perform :: "event \<Rightarrow> unit io" where
  "perform Initialize = initialize"
| "perform (SwitchChat chatId) = switchChat chatId"
| "perform (SwitchModel model) = switchModel model"
| "perform (StartNewChat name model) = startNewChat name model"
| "perform (AddSystemMessage content meta) = addSystemMessage content meta"
| "perform (AddUserMessage content) = addUserMessage content"
| "perform (DeleteChat chatId) = deleteChat chatId"
| "perform WipeDatabase = wipeDatabase"
| "perform (Partial response chatId) =
     await (handleAiPartialResponse response chatId) (\<lambda>_. exec settle_all)"
| "perform (Arrives response chatId) = handleAiPartialResponse response chatId"
| "perform Settle = settle"
| "perform (Complete context chatId) = handleAiCompletion context chatId"
| "perform (Clock t) = exec (\<lambda>w. w\<lparr>clock := t\<rparr>)"
| "perform (Outcomes bs) = exec (\<lambda>w. w\<lparr>failures := bs\<rparr>)"

fun run :: "event list \<Rightarrow> World \<Rightarrow> World" where
  "run [] w = w"
| "run (e # es) w = run es (snd (perform e w))"

text \<open>The module's state when it is loaded (lines 57 to 60), over a given store.\<close>

definition fresh_session :: "Store \<Rightarrow> World" where
  "fresh_session s =
     \<lparr>store = s, failures = [], clock = 0, chat_heap = [], msg_heap = [], chats = [],
      activeChat = None, messages = [], ongoingAiMessages = [], console = [], requests = [],
      pending = []\<rparr>"

definition empty_store :: Store where
  "empty_store = \<lparr>chats_tbl = [], messages_tbl = [], chats_key = 0, messages_key = 0\<rparr>"

text \<open>What a consumer reads: the objects behind the references.\<close>

definition messages_view :: "World \<Rightarrow> Message list" where
  "messages_view w = map (msg_at w) (messages w)"

definition chats_view :: "World \<Rightarrow> Chat list" where
  "chats_view w = map (chat_at w) (chats w)"

definition active_view :: "World \<Rightarrow> Chat option" where
  "active_view w = map_option (chat_at w) (activeChat w)"

definition ongoing_view :: "World \<Rightarrow> (key \<times> Message) list" where
  "ongoing_view w = map (\<lambda>(k, a). (k, msg_at w a)) (ongoingAiMessages w)"

text \<open>The persisted messages of the active chat.\<close>

definition persisted_of_active :: "World \<Rightarrow> Message list" where
  "persisted_of_active w =
     (case active_id w of None \<Rightarrow> [] | Some k \<Rightarrow> messages_of k (store w))"

text \<open>The next external call rejects.\<close>

definition next_fails :: "World \<Rightarrow> bool" where
  "next_fails w = (case failures w of [] \<Rightarrow> False | b # _ \<Rightarrow> b)"

text \<open>The eight operations of the returned interface, as opposed to the transport's
  callbacks and the environment.\<close>

fun is_operation :: "event \<Rightarrow> bool" where
  "is_operation (Partial _ _) = False"
| "is_operation (Arrives _ _) = False"
| "is_operation Settle = False"
| "is_operation (Complete _ _) = False"
| "is_operation (Clock _) = False"
| "is_operation (Outcomes _) = False"
| "is_operation _ = True"

text \<open>The world of \<^verbatim>\<open>deleteChat\<close> after its two store calls and line 250: the chat and its
  messages are gone from the store, and the chat from the list.\<close>

definition after_delete :: "nat \<Rightarrow> World \<Rightarrow> World" where
  "after_delete k w =
     w\<lparr>store := (store w)\<lparr>chats_tbl := filter (\<lambda>c. chat_id c \<noteq> Some k) (chats_tbl (store w)),
                          messages_tbl := filter (\<lambda>m. msg_chatId m \<noteq> Some k) (messages_tbl (store w))\<rparr>,
       chats := filter (\<lambda>a. chat_id (chat_at w a) \<noteq> Some k) (chats w)\<rparr>"



text \<open>The in-flight map is well formed: its messages are allocated objects that carry an
  id, and no object is in flight for two chats.\<close>

definition inflight_ok :: "World \<Rightarrow> bool" where
  "inflight_ok w =
     (distinct (map snd (ongoingAiMessages w)) \<and>
      list_all (\<lambda>a. a < length (msg_heap w) \<and> msg_id (msg_heap w ! a) \<noteq> None)
        (map snd (ongoingAiMessages w)))"

text \<open>What most operations do to the Message objects and the in-flight map: they leave the
  map alone and only allocate. \<^verbatim>\<open>wipeDatabase\<close> may also empty the map.\<close>

definition msg_frame :: "World \<Rightarrow> World \<Rightarrow> bool" where
  "msg_frame w w' = (ongoingAiMessages w' = ongoingAiMessages w \<and> pending w' = pending w \<and>
     (\<exists>ms. msg_heap w' = msg_heap w @ ms))"


definition wipe_frame :: "World \<Rightarrow> World \<Rightarrow> bool" where
  "wipe_frame w w' =
     ((ongoingAiMessages w' = ongoingAiMessages w \<or> ongoingAiMessages w' = []) \<and>
      (\<exists>ms. msg_heap w' = msg_heap w @ ms))"

subsection \<open>Example sessions\<close>

text \<open>A first start on an empty store, then a question.\<close>

definition session_asked :: World where
  "session_asked = run [Initialize, AddUserMessage ''hi''] (fresh_session empty_store)"

text \<open>The answer streaming in: two fragments received, no completion yet.\<close>

definition session_streaming :: World where
  "session_streaming = run [Partial ''He'' (Some 1), Partial ''llo'' (Some 1)] session_asked"

text \<open>Three chats created at times 0, 5 and 9; the last one is active.\<close>

definition session_three_chats :: World where
  "session_three_chats =
     run [Initialize, Clock 5, StartNewChat ''b'' ''m'', Clock 9, StartNewChat ''c'' ''m2'']
       (fresh_session empty_store)"

text \<open>The module loaded again over the store a first start left behind (one chat), with the
  read of that chat during \<^verbatim>\<open>initialize\<close> rejected: one chat in the list, none active.\<close>

definition session_none_active :: World where
  "session_none_active =
     run [Outcomes [False, True], Initialize]
       (fresh_session (store (run [Initialize] (fresh_session empty_store))))"

text \<open>One chat, active, switched to another model before its first message.\<close>

definition session_one_chat :: World where
  "session_one_chat = run [Initialize, SwitchModel ''llama''] (fresh_session empty_store)"

text \<open>Two chats; the second is active and holds a question.\<close>

definition session_two_chats :: World where
  "session_two_chats =
     run [Initialize, StartNewChat ''b'' ''m'', AddUserMessage ''hi''] (fresh_session empty_store)"

section \<open>Unfolding rules and basic facts\<close>

lemmas io_defs = ret_def exec_def await_def try_catch_def
lemmas console_defs = console_error_def console_warn_def console_log_def
lemmas alloc_defs = alloc_chat_def alloc_chats_def alloc_msg_def alloc_msgs_def
lemmas dbLayer_defs = store_call_def find_chat_def find_message_def messages_of_def
  dbLayer_getAllChats_def dbLayer_getChat_def dbLayer_getMessages_def dbLayer_addChat_def
  dbLayer_updateChat_def dbLayer_addMessage_def dbLayer_updateMessage_def dbLayer_deleteChat_def
  dbLayer_deleteMessagesOfChat_def dbLayer_clearChats_def dbLayer_clearMessages_def generate_def
lemmas session_defs = chat_at_def msg_at_def sortedChats_def hasActiveChat_def hasMessages_def
  setActiveChat_def setMessages_def active_id_def lastContext_def
lemmas op_defs = switchChat_def switchModel_def startNewChat_def initialize_def
  addSystemMessage_def addUserMessage_def startAiMessage_def startAiMessage_rest_def
  appendToAiMessage_def appendToAiMessage_rest_def handleAiPartialResponse_def settle_def
  settle_all_def handleAiCompletion_def wipeDatabase_def deleteChat_def
lemmas view_defs = fresh_session_def empty_store_def messages_view_def chats_view_def
  active_view_def ongoing_view_def persisted_of_active_def next_fails_def
lemmas example_defs = session_asked_def session_streaming_def session_three_chats_def
  session_none_active_def session_one_chat_def session_two_chats_def
lemmas eval_defs = io_defs console_defs alloc_defs dbLayer_defs session_defs op_defs view_defs
  example_defs Let_def

lemma store_call_quiet: "failures w = [] \<Longrightarrow> store_call n w = (Return (), w)"
  by (simp add: store_call_def)

lemma store_call_rejects:
  "failures w = True # fs \<Longrightarrow> store_call n w = (Throw (StorageError n), w\<lparr>failures := fs\<rparr>)"
  by (simp add: store_call_def)

lemma msg_at_nth: "msg_at w = (!) (msg_heap w)"
  by (rule ext) (simp add: msg_at_def)

lemma chat_at_nth: "chat_at w = (!) (chat_heap w)"
  by (rule ext) (simp add: chat_at_def)

text \<open>Reading back a block of objects just allocated.\<close>

lemma nth_fresh_block_tail:
  "map ((!) (h @ ms @ t)) [length h ..< length h + length ms] = ms"
  by (rule nth_equalityI) (auto simp: nth_append)

lemma nth_fresh_block: "map ((!) (h @ ms)) [length h ..< length h + length ms] = ms"
  using nth_fresh_block_tail [of h ms "[]"] by simp

text \<open>An update through the primary key, seen by a lookup through the same key.\<close>

lemma find_map_upd:
  assumes "\<And>m. P (u m) = P m"
  shows "find P (map (\<lambda>m. if P m then u m else m) xs) = map_option u (find P xs)"
  using assms by (induction xs) auto

lemma find_filter_other:
  "j \<noteq> k \<Longrightarrow> find (\<lambda>c. chat_id c = Some j) (filter (\<lambda>c. chat_id c \<noteq> Some k) xs) =
     find (\<lambda>c. chat_id c = Some j) xs"
  by (induction xs) auto

text \<open>The head of the sorted view is a newest chat.\<close>

lemma sort_key_head:
  assumes "sort_key f xs = a # as"
  shows "a \<in> set xs \<and> (\<forall>x \<in> set xs. f a \<le> f x)"
proof -
  have s: "sorted (map f (sort_key f xs))" by (rule sorted_sort_key)
  have m: "set (sort_key f xs) = set xs" by simp
  from m assms have "a \<in> set xs" by (metis list.set_intros(1))
  moreover have "\<forall>x \<in> set xs. f a \<le> f x"
  proof
    fix x assume "x \<in> set xs"
    then have "x \<in> set (a # as)" using m assms by simp
    then show "f a \<le> f x" using s assms by auto
  qed
  ultimately show ?thesis by simp
qed

text \<open>A \<^verbatim>\<open>try\<close> whose handler only logs always returns; one whose body returns is its body.\<close>

lemma try_exec_returns: "fst (try_catch body (\<lambda>e. exec f) w) = Return ()"
  by (simp add: try_catch_def exec_def split: prod.splits outcome.splits)

lemma caught_return:
  "fst X = Return u \<Longrightarrow>
   (case X of (Throw e, w1) \<Rightarrow> h e w1 | (Return x, w1) \<Rightarrow> (Return x, w1)) = X"
  by (cases X) auto

lemma switchChat_returns: "fst (switchChat j w) = Return ()"
  by (simp add: switchChat_def try_exec_returns)

lemma startNewChat_returns: "fst (startNewChat n m w) = Return ()"
  by (simp add: startNewChat_def try_exec_returns Let_def)

section \<open>What the events do to the in-flight messages\<close>

subsection \<open>Operations that only allocate\<close>

lemma msg_frame_refl: "msg_frame w w"
  by (simp add: msg_frame_def)

lemma msg_frame_trans: "msg_frame w w1 \<Longrightarrow> msg_frame w1 w2 \<Longrightarrow> msg_frame w w2"
  by (auto simp: msg_frame_def)

lemma await_rel:
  assumes tr: "\<And>a b c. R a b \<Longrightarrow> R b c \<Longrightarrow> R a c"
    and m: "\<And>w. R w (snd (m w))" and f: "\<And>x w. R w (snd (f x w))"
  shows "R w (snd (await m f w))"
proof (cases "m w")
  case (Pair r w1)
  have 1: "R w w1" using m [of w] Pair by simp
  show ?thesis
  proof (cases r)
    case (Return x)
    with Pair have "snd (await m f w) = snd (f x w1)" by (simp add: await_def)
    with tr [OF 1 f [of w1 x]] show ?thesis by simp
  next
    case (Throw e)
    with Pair 1 show ?thesis by (simp add: await_def)
  qed
qed

lemma try_rel:
  assumes tr: "\<And>a b c. R a b \<Longrightarrow> R b c \<Longrightarrow> R a c"
    and b: "\<And>w. R w (snd (b w))" and h: "\<And>e w. R w (snd (h e w))"
  shows "R w (snd (try_catch b h w))"
proof (cases "b w")
  case (Pair r w1)
  have 1: "R w w1" using b [of w] Pair by simp
  show ?thesis
  proof (cases r)
    case (Return x)
    with Pair 1 show ?thesis by (simp add: try_catch_def)
  next
    case (Throw e)
    with Pair have "snd (try_catch b h w) = snd (h e w1)" by (simp add: try_catch_def)
    with tr [OF 1 h [of w1 e]] show ?thesis by simp
  qed
qed

lemmas frame_await = await_rel [where R = msg_frame, OF msg_frame_trans]
lemmas frame_try = try_rel [where R = msg_frame, OF msg_frame_trans]

lemma frame_exec: "(\<And>w. msg_frame w (f w)) \<Longrightarrow> msg_frame w (snd (exec f w))"
  by (simp add: exec_def)

lemma frame_ret: "msg_frame w (snd (ret x w))"
  by (simp add: ret_def msg_frame_refl)

lemma frame_store_call: "msg_frame w (snd (store_call n w))"
  by (simp add: store_call_def msg_frame_def split: list.splits)

lemma frame_log: "msg_frame w (console_error s w)" "msg_frame w (console_warn s w)"
  "msg_frame w (console_log s w)"
  by (simp_all add: console_defs msg_frame_def)

lemma frame_dbLayer:
  "msg_frame w (snd (dbLayer_getAllChats w))"
  "msg_frame w (snd (dbLayer_getChat k w))"
  "msg_frame w (snd (dbLayer_getMessages k w))"
  "msg_frame w (snd (dbLayer_addChat c w))"
  "msg_frame w (snd (dbLayer_updateChat k uc w))"
  "msg_frame w (snd (dbLayer_addMessage m w))"
  "msg_frame w (snd (dbLayer_updateMessage k um w))"
  "msg_frame w (snd (dbLayer_deleteChat k w))"
  "msg_frame w (snd (dbLayer_deleteMessagesOfChat k w))"
  "msg_frame w (snd (dbLayer_clearChats w))"
  "msg_frame w (snd (dbLayer_clearMessages w))"
  "msg_frame w (snd (generate mo p ctx k w))"
  by (auto simp: dbLayer_defs await_def alloc_defs msg_frame_def Let_def
      split: list.splits option.splits)

lemmas frame_rules = frame_try frame_await frame_exec frame_ret frame_log frame_dbLayer

lemma frame_leaf:
  "msg_frame w (setActiveChat c w)"
  "msg_frame w (setMessages ms w)"
  "msg_frame w (w\<lparr>chats := cs\<rparr>)"
  "msg_frame w (w\<lparr>chat_heap := h\<rparr>)"
  "msg_frame w (setMessages ms (setActiveChat c (snd (alloc_chat ch w)\<lparr>chats := cs\<rparr>)))"
  "msg_frame w ((snd (alloc_msg m w))\<lparr>messages := ms\<rparr>)"
  "msg_frame w (w\<lparr>chats := [], activeChat := None, messages := []\<rparr>)"
  by (simp_all add: msg_frame_def setActiveChat_def setMessages_def alloc_defs)

lemma switchChat_frame: "msg_frame w (snd (switchChat k w))"
  unfolding switchChat_def
  by (auto intro!: frame_rules frame_leaf split: option.splits)

lemma startNewChat_frame: "msg_frame w (snd (startNewChat n m w))"
  unfolding startNewChat_def Let_def
  by (auto intro!: frame_rules frame_leaf split: prod.splits simp: alloc_chat_def)
     (simp add: msg_frame_def setActiveChat_def setMessages_def)

lemma switchModel_frame: "msg_frame w (snd (switchModel m w))"
  unfolding switchModel_def
  by (auto intro!: frame_rules frame_leaf msg_frame_refl split: option.splits)

lemma addSystemMessage_frame: "msg_frame w (snd (addSystemMessage c m w))"
  unfolding addSystemMessage_def Let_def
  by (auto intro!: frame_rules frame_leaf msg_frame_refl split: option.splits prod.splits
      simp: alloc_msg_def)
     (simp add: msg_frame_def)

lemma addUserMessage_frame: "msg_frame w (snd (addUserMessage c w))"
  unfolding addUserMessage_def Let_def
  apply (auto intro!: frame_rules frame_leaf msg_frame_refl split: option.splits prod.splits
      simp: alloc_msg_def)
  apply (rule msg_frame_trans [OF _ frame_dbLayer(12)])
  apply (simp add: msg_frame_def console_defs)
  done

lemma initialize_frame: "msg_frame w (snd (initialize w))"
  unfolding initialize_def
  by (auto intro!: frame_rules frame_leaf msg_frame_refl switchChat_frame startNewChat_frame
      split: list.splits)

lemma deleteChat_frame: "msg_frame w (snd (deleteChat k w))"
  unfolding deleteChat_def
  by (auto intro!: frame_rules frame_leaf msg_frame_refl switchChat_frame startNewChat_frame
      split: list.splits option.splits)


subsection \<open>The streaming callbacks and the wipe\<close>

lemma inflight_ok_iff:
  "inflight_ok w \<longleftrightarrow>
     distinct (map snd (ongoingAiMessages w)) \<and>
     (\<forall>a \<in> snd ` set (ongoingAiMessages w).
        a < length (msg_heap w) \<and> msg_id (msg_heap w ! a) \<noteq> None)"
  by (simp add: inflight_ok_def list_all_iff)

lemma inflight_has_id:
  assumes "inflight_ok w" and "map_of (ongoingAiMessages w) k = Some a"
  shows "\<exists>i. msg_id (msg_at w a) = Some i"
proof -
  from assms(2) have "(k, a) \<in> set (ongoingAiMessages w)" by (rule map_of_SomeD)
  then have "a \<in> snd ` set (ongoingAiMessages w)" by force
  with assms(1) show ?thesis by (auto simp: inflight_ok_iff msg_at_def)
qed



lemma update_values: "set (map snd (AList.update k v al)) \<subseteq> insert v (set (map snd al))"
  by (induction al) auto

lemma distinct_update_fresh:
  "distinct (map snd al) \<Longrightarrow> v \<notin> set (map snd al) \<Longrightarrow> distinct (map snd (AList.update k v al))"
proof (induction al)
  case Nil
  then show ?case by simp
next
  case (Cons p ps)
  have "snd p \<notin> set (map snd (AList.update k v ps))"
    using update_values [of k v ps] Cons.prems by auto
  with Cons show ?case by auto
qed

lemma inflight_ok_frame: "inflight_ok w \<Longrightarrow> msg_frame w w' \<Longrightarrow> inflight_ok w'"
  by (fastforce simp: inflight_ok_iff msg_frame_def nth_append)

lemma startAiMessage_rest_effect:
  "pending (snd (startAiMessage_rest m k w)) = pending w \<and>
   ((ongoingAiMessages (snd (startAiMessage_rest m k w)) = ongoingAiMessages w \<and>
     msg_heap (snd (startAiMessage_rest m k w)) = msg_heap w) \<or>
    (\<exists>m'. ongoingAiMessages (snd (startAiMessage_rest m k w)) =
            AList.update k (length (msg_heap w)) (ongoingAiMessages w) \<and>
         msg_heap (snd (startAiMessage_rest m k w)) = msg_heap w @ [m'] \<and> msg_id m' \<noteq> None))"
  by (auto simp: startAiMessage_rest_def io_defs alloc_defs dbLayer_addMessage_def store_call_def
      console_defs Let_def split: list.splits)

lemma appendToAiMessage_rest_frame: "msg_frame w (snd (appendToAiMessage_rest i c k w))"
  unfolding appendToAiMessage_rest_def
  by (auto intro!: frame_rules frame_leaf)

lemma startAiMessage_effect:
  "ongoingAiMessages (startAiMessage f k w) = ongoingAiMessages w \<and>
   msg_heap (startAiMessage f k w) = msg_heap w \<and>
   (\<exists>m. pending (startAiMessage f k w) = pending w @ [StartTask m k])"
  by (simp add: startAiMessage_def Let_def)

lemma appendToAiMessage_effect:
  assumes "map_of (ongoingAiMessages w) k = Some a"
  shows "ongoingAiMessages (appendToAiMessage f k w) = ongoingAiMessages w \<and>
    msg_heap (appendToAiMessage f k w) =
      (msg_heap w)[a := (msg_at w a)\<lparr>msg_content := msg_content (msg_at w a) @ f\<rparr>] \<and>
    (\<exists>i c. pending (appendToAiMessage f k w) = pending w @ [AppendTask i c k])"
  using assms by (simp add: appendToAiMessage_def Let_def)

lemma handleAiCompletion_effect:
  "msg_heap (snd (handleAiCompletion c k w)) = msg_heap w \<and>
   messages (snd (handleAiCompletion c k w)) = messages w \<and>
   (ongoingAiMessages (snd (handleAiCompletion c k w)) = ongoingAiMessages w \<or>
    ongoingAiMessages (snd (handleAiCompletion c k w)) = AList.delete k (ongoingAiMessages w))"
  by (auto simp: handleAiCompletion_def io_defs dbLayer_updateMessage_def store_call_def
      console_defs split: list.splits option.splits)


lemma wipe_frame_trans: "wipe_frame w w1 \<Longrightarrow> wipe_frame w1 w2 \<Longrightarrow> wipe_frame w w2"
  by (auto simp: wipe_frame_def)

lemma msg_frame_wipe: "msg_frame w w' \<Longrightarrow> wipe_frame w w'"
  by (simp add: msg_frame_def wipe_frame_def)

lemmas wipe_await = await_rel [where R = wipe_frame, OF wipe_frame_trans]
lemmas wipe_try = try_rel [where R = wipe_frame, OF wipe_frame_trans]
lemmas wipe_dbLayer = frame_dbLayer [THEN msg_frame_wipe]

lemma wipe_handler: "wipe_frame w (snd (exec (console_error s) w))"
  by (simp add: exec_def console_error_def wipe_frame_def)

lemma wipe_reset:
  "wipe_frame w (snd (startNewChat n m
      (w\<lparr>chats := [], activeChat := None, messages := [], ongoingAiMessages := []\<rparr>)))"
  using startNewChat_frame
      [of "w\<lparr>chats := [], activeChat := None, messages := [], ongoingAiMessages := []\<rparr>" n m]
  by (simp add: msg_frame_def wipe_frame_def)

lemma wipeDatabase_frame: "wipe_frame w (snd (wipeDatabase w))"
  unfolding wipeDatabase_def Let_def
  by (intro wipe_try wipe_await wipe_dbLayer wipe_handler wipe_reset)

lemma inflight_ok_wipe: "inflight_ok w \<Longrightarrow> wipe_frame w w' \<Longrightarrow> inflight_ok w'"
  by (fastforce simp: inflight_ok_iff wipe_frame_def nth_append)

subsection \<open>The in-flight map stays well formed\<close>

lemma startAiMessage_rest_inflight_ok:
  assumes "inflight_ok w"
  shows "inflight_ok (snd (startAiMessage_rest m k w))"
proof -
  let ?w1 = "snd (startAiMessage_rest m k w)"
  from assms have fresh: "length (msg_heap w) \<notin> set (map snd (ongoingAiMessages w))"
    by (fastforce simp: inflight_ok_iff)
  from startAiMessage_rest_effect [of m k w]
  have "(ongoingAiMessages ?w1 = ongoingAiMessages w \<and> msg_heap ?w1 = msg_heap w) \<or>
    (\<exists>m'. ongoingAiMessages ?w1 = AList.update k (length (msg_heap w)) (ongoingAiMessages w) \<and>
         msg_heap ?w1 = msg_heap w @ [m'] \<and> msg_id m' \<noteq> None)" by simp
  then show ?thesis
  proof
    assume "ongoingAiMessages ?w1 = ongoingAiMessages w \<and> msg_heap ?w1 = msg_heap w"
    with assms show ?thesis by (simp add: inflight_ok_def)
  next
    assume "\<exists>m'. ongoingAiMessages ?w1 =
           AList.update k (length (msg_heap w)) (ongoingAiMessages w) \<and>
        msg_heap ?w1 = msg_heap w @ [m'] \<and> msg_id m' \<noteq> None"
    then obtain m' where
      o: "ongoingAiMessages ?w1 = AList.update k (length (msg_heap w)) (ongoingAiMessages w)"
      and h: "msg_heap ?w1 = msg_heap w @ [m']"
      and i: "msg_id m' \<noteq> None" by blast
    have d: "distinct (map snd (AList.update k (length (msg_heap w)) (ongoingAiMessages w)))"
      using assms fresh by (intro distinct_update_fresh) (simp_all add: inflight_ok_def)
    have b: "\<forall>a \<in> snd ` set (AList.update k (length (msg_heap w)) (ongoingAiMessages w)).
            a < Suc (length (msg_heap w)) \<and> msg_id ((msg_heap w @ [m']) ! a) \<noteq> None"
    proof
      fix a assume "a \<in> snd ` set (AList.update k (length (msg_heap w)) (ongoingAiMessages w))"
      with update_values [of k "length (msg_heap w)" "ongoingAiMessages w"]
      have "a = length (msg_heap w) \<or> a \<in> snd ` set (ongoingAiMessages w)" by auto
      with assms i
      show "a < Suc (length (msg_heap w)) \<and> msg_id ((msg_heap w @ [m']) ! a) \<noteq> None"
        by (auto simp: inflight_ok_iff less_Suc_eq nth_append)
    qed
    from d b o h show ?thesis by (simp add: inflight_ok_iff)
  qed
qed

lemma resume_inflight_ok: "inflight_ok w \<Longrightarrow> inflight_ok (snd (resume t w))"
  by (cases t)
     (simp_all add: startAiMessage_rest_inflight_ok
        inflight_ok_frame [OF _ appendToAiMessage_rest_frame])

lemma settle_tasks_inflight_ok: "inflight_ok w \<Longrightarrow> inflight_ok (settle_tasks ts w)"
  by (induction ts arbitrary: w) (simp_all add: resume_inflight_ok)

lemma inflight_ok_pending: "inflight_ok (w\<lparr>pending := p\<rparr>) = inflight_ok w"
  by (simp add: inflight_ok_def)

lemma settle_all_inflight_ok: "inflight_ok w \<Longrightarrow> inflight_ok (settle_all w)"
  by (simp add: settle_all_def settle_tasks_inflight_ok inflight_ok_pending)

lemma settle_inflight_ok: "inflight_ok w \<Longrightarrow> inflight_ok (snd (settle w))"
  by (simp add: settle_def resume_inflight_ok inflight_ok_pending split: list.splits)

lemma handleAiPartialResponse_inflight_ok:
  assumes "inflight_ok w"
  shows "inflight_ok (snd (handleAiPartialResponse f k w))"
proof (cases "map_of (ongoingAiMessages w) k")
  case None
  with assms startAiMessage_effect [of f k w] show ?thesis
    by (simp add: handleAiPartialResponse_def inflight_ok_def)
next
  case (Some a)
  let ?w1 = "appendToAiMessage f k w"
  from appendToAiMessage_effect [OF Some, of f] have
    o: "ongoingAiMessages ?w1 = ongoingAiMessages w"
    and h: "msg_heap ?w1 =
      (msg_heap w)[a := (msg_at w a)\<lparr>msg_content := msg_content (msg_at w a) @ f\<rparr>]"
    by simp_all
  have "b < length (msg_heap ?w1) \<and> msg_id (msg_heap ?w1 ! b) \<noteq> None"
    if "b \<in> snd ` set (ongoingAiMessages w)" for b
  proof -
    from that assms have b: "b < length (msg_heap w)" "msg_id (msg_heap w ! b) \<noteq> None"
      by (auto simp: inflight_ok_iff)
    then show ?thesis
      unfolding h by (cases "b = a") (simp_all add: msg_at_def)
  qed
  with assms o Some show ?thesis by (simp add: handleAiPartialResponse_def inflight_ok_iff)
qed

lemma handleAiPartialResponse_returns: "fst (handleAiPartialResponse f k w) = Return ()"
  by (simp add: handleAiPartialResponse_def split: option.splits)

lemma perform_Partial:
  "perform (Partial f k) w = (Return (), settle_all (snd (handleAiPartialResponse f k w)))"
  by (simp add: handleAiPartialResponse_def await_def exec_def split: option.splits)

lemma perform_inflight_ok:
  assumes "inflight_ok w"
  shows "inflight_ok (snd (perform e w))"
proof (cases e)
  case Initialize
  with assms inflight_ok_frame [OF _ initialize_frame] show ?thesis by simp
next
  case (SwitchChat k)
  with assms inflight_ok_frame [OF _ switchChat_frame] show ?thesis by simp
next
  case (SwitchModel m)
  with assms inflight_ok_frame [OF _ switchModel_frame] show ?thesis by simp
next
  case (StartNewChat n m)
  with assms inflight_ok_frame [OF _ startNewChat_frame] show ?thesis by simp
next
  case (AddSystemMessage c m)
  with assms inflight_ok_frame [OF _ addSystemMessage_frame] show ?thesis by simp
next
  case (AddUserMessage c)
  with assms inflight_ok_frame [OF _ addUserMessage_frame] show ?thesis by simp
next
  case (DeleteChat k)
  with assms inflight_ok_frame [OF _ deleteChat_frame] show ?thesis by simp
next
  case WipeDatabase
  with assms inflight_ok_wipe [OF _ wipeDatabase_frame] show ?thesis by simp
next
  case (Partial f k)
  with assms show ?thesis
    by (simp only: perform_Partial snd_conv settle_all_inflight_ok
        handleAiPartialResponse_inflight_ok)
next
  case (Arrives f k)
  with assms show ?thesis by (simp add: handleAiPartialResponse_inflight_ok)
next
  case Settle
  with assms show ?thesis by (simp add: settle_inflight_ok)
next
  case (Complete c k)
  from handleAiCompletion_effect [of c k w] assms Complete show ?thesis
    by (fastforce simp: inflight_ok_iff AList.delete_eq distinct_map_filter)
next
  case (Clock t)
  with assms show ?thesis by (simp add: exec_def inflight_ok_def)
next
  case (Outcomes bs)
  with assms show ?thesis by (simp add: exec_def inflight_ok_def)
qed

lemma run_inflight_ok: "inflight_ok w \<Longrightarrow> inflight_ok (run evs w)"
  by (induction evs arbitrary: w) (simp_all add: perform_inflight_ok)

lemma reachable_inflight_ok: "inflight_ok (run evs (fresh_session s))"
  by (rule run_inflight_ok) (simp add: inflight_ok_def fresh_session_def)








section \<open>The streaming aggregator\<close>

subsection \<open>START and APPEND\<close>


text \<open>APPEND: the in-flight object stays where it is and its content grows by the fragment
  when the callback runs (line 285), before the write is awaited; what the store answers
  later does not undo it.\<close>

lemma appendToAiMessage_grows:
  assumes "map_of (ongoingAiMessages w) k = Some a" and "a < length (msg_heap w)"
  shows "map_of (ongoingAiMessages (appendToAiMessage f k w)) k = Some a"
    and "msg_content (msg_at (appendToAiMessage f k w) a) = msg_content (msg_at w a) @ f"
    and "msg_at (snd (appendToAiMessage_rest i c k (appendToAiMessage f k w))) a =
         msg_at (appendToAiMessage f k w) a"
  using assms appendToAiMessage_rest_frame [of "appendToAiMessage f k w" i c k]
  by (auto simp: appendToAiMessage_def msg_frame_def msg_at_def Let_def nth_append)




subsection \<open>FINALIZE\<close>

lemma handleAiCompletion_quiet:
  assumes "map_of (ongoingAiMessages w) chatId = Some a" and "msg_id (msg_at w a) = Some i"
    and "\<not> next_fails w"
  shows "handleAiCompletion context chatId w =
     (Return (),
      w\<lparr>failures := tl (failures w),
        store := (store w)\<lparr>messages_tbl :=
            map (\<lambda>m. if msg_id m = Some i then m\<lparr>msg_context := Some context\<rparr> else m)
              (messages_tbl (store w))\<rparr>,
        ongoingAiMessages := AList.delete chatId (ongoingAiMessages w),
        console := console w @ [ConsoleLog ''finalized message'']\<rparr>)"
  using assms
  by (auto simp: handleAiCompletion_def io_defs dbLayer_updateMessage_def store_call_def
      console_defs next_fails_def split: list.splits)

lemma handleAiCompletion_rejected:
  assumes "map_of (ongoingAiMessages w) chatId = Some a" and "next_fails w"
  shows "handleAiCompletion context chatId w =
     (Return (),
      w\<lparr>failures := tl (failures w),
        console := console w @ [ConsoleError ''Failed to finalize AI message:'']\<rparr>)"
  using assms
  by (auto simp: handleAiCompletion_def io_defs dbLayer_updateMessage_def store_call_def
      console_defs next_fails_def split: list.splits)

text \<open>The streaming session of the examples, evaluated.\<close>

lemma session_streaming_eval:
  "session_streaming =
     \<lparr>store = \<lparr>chats_tbl = [\<lparr>chat_id = Some 1, chat_name = ''New chat'', chat_model = ''n/a'',
                               chat_createdAt = 0\<rparr>],
                messages_tbl =
                  [\<lparr>msg_id = Some 1, msg_chatId = Some 1, msg_role = User, msg_content = ''hi'',
                    msg_meta = None, msg_context = None, msg_createdAt = 0\<rparr>,
                   \<lparr>msg_id = Some 2, msg_chatId = Some 1, msg_role = Assistant,
                    msg_content = ''Hello'', msg_meta = None, msg_context = None,
                    msg_createdAt = 0\<rparr>],
                chats_key = 1, messages_key = 2\<rparr>,
       failures = [], clock = 0,
       chat_heap = [\<lparr>chat_id = Some 1, chat_name = ''New chat'', chat_model = ''n/a'',
                     chat_createdAt = 0\<rparr>],
       msg_heap =
         [\<lparr>msg_id = Some 1, msg_chatId = Some 1, msg_role = User, msg_content = ''hi'',
           msg_meta = None, msg_context = None, msg_createdAt = 0\<rparr>,
          \<lparr>msg_id = Some 2, msg_chatId = Some 1, msg_role = Assistant, msg_content = ''Hello'',
           msg_meta = None, msg_context = None, msg_createdAt = 0\<rparr>,
          \<lparr>msg_id = Some 1, msg_chatId = Some 1, msg_role = User, msg_content = ''hi'',
           msg_meta = None, msg_context = None, msg_createdAt = 0\<rparr>,
          \<lparr>msg_id = Some 2, msg_chatId = Some 1, msg_role = Assistant, msg_content = ''Hello'',
           msg_meta = None, msg_context = None, msg_createdAt = 0\<rparr>],
       chats = [0], activeChat = Some 0, messages = [2, 3],
       ongoingAiMessages = [(Some 1, 1)],
       console = [ConsoleLog ''context'', ConsoleLog ''lastMessageWithContext''],
       requests = [\<lparr>req_model = ''n/a'', req_prompt = ''hi'', req_context = None,
                    req_chatId = Some 1\<rparr>],
       pending = []\<rparr>"
  by (simp add: eval_defs)

text \<open>
  Claim C3, as stated, fails in two ways. Where it includes a rejected write: the removal
  of line 214 stands after the awaited write inside the \<^verbatim>\<open>try\<close>, so a rejection skips it,
  the chat id stays in the in-flight map and no record gets the token. And where the chat
  was deleted while its answer was streaming: the in-flight entry is still there, the
  write is accepted and changes nothing, the entry is removed, and no message, persisted
  or in memory, has the token as its context.
\<close>

theorem C3_counterexample:
  "map_of (ongoingAiMessages (run [Outcomes [True], Complete [7] (Some 1)] session_streaming))
     (Some 1) = Some 1 \<and>
   find_message 2 (store (run [Outcomes [True], Complete [7] (Some 1)] session_streaming)) =
     Some \<lparr>msg_id = Some 2, msg_chatId = Some 1, msg_role = Assistant, msg_content = ''Hello'',
           msg_meta = None, msg_context = None, msg_createdAt = 0\<rparr> \<and>
   map_of (ongoingAiMessages (run [DeleteChat (Some 1)] session_streaming)) (Some 1) = Some 1 \<and>
   failures (run [DeleteChat (Some 1)] session_streaming) = [] \<and>
   map_of (ongoingAiMessages (run [DeleteChat (Some 1), Complete [7] (Some 1)] session_streaming))
     (Some 1) = None \<and>
   messages_tbl (store (run [DeleteChat (Some 1), Complete [7] (Some 1)] session_streaming)) = [] \<and>
   map msg_context (msg_heap (run [DeleteChat (Some 1), Complete [7] (Some 1)] session_streaming)) =
     [None, None, None, None]"
  unfolding session_streaming_eval by (simp add: eval_defs)

text \<open>
  Claim C3, amended. For a chat id with an in-flight entry whose message carries an id
  under which the store still has a record, when the write of the finalization is
  accepted, \<^verbatim>\<open>handleAiCompletion\<close> returns normally, the in-flight map no longer contains the
  chat id, and the persisted record of the in-flight message is the record of before with
  the token as its context. (In every world the session can reach, the message of an
  in-flight entry carries an id.)
\<close>

theorem C3_finalize:
  assumes "map_of (ongoingAiMessages w) chatId = Some a"
    and "msg_id (msg_at w a) = Some i"
    and "find_message i (store w) = Some r"
    and "\<not> next_fails w"
  shows "fst (handleAiCompletion context chatId w) = Return () \<and>
         map_of (ongoingAiMessages (snd (handleAiCompletion context chatId w))) chatId = None \<and>
         find_message i (store (snd (handleAiCompletion context chatId w))) =
           Some (r\<lparr>msg_context := Some context\<rparr>)"
  using handleAiCompletion_quiet [OF assms(1) assms(2) assms(4), of "context"] assms(3)
  by (simp add: find_message_def delete_conv' find_map_upd)

theorem C3_witness:
  "map_of (ongoingAiMessages session_streaming) (Some 1) = Some 1 \<and>
   msg_id (msg_at session_streaming 1) = Some 2 \<and>
   find_message 2 (store session_streaming) =
     Some \<lparr>msg_id = Some 2, msg_chatId = Some 1, msg_role = Assistant, msg_content = ''Hello'',
           msg_meta = None, msg_context = None, msg_createdAt = 0\<rparr> \<and>
   \<not> next_fails session_streaming \<and>
   fst (handleAiCompletion [7] (Some 1) session_streaming) = Return () \<and>
   map_of (ongoingAiMessages (snd (handleAiCompletion [7] (Some 1) session_streaming)))
     (Some 1) = None \<and>
   find_message 2 (store (snd (handleAiCompletion [7] (Some 1) session_streaming))) =
     Some \<lparr>msg_id = Some 2, msg_chatId = Some 1, msg_role = Assistant, msg_content = ''Hello'',
           msg_meta = None, msg_context = Some [7], msg_createdAt = 0\<rparr>"
proof -
  have h1: "map_of (ongoingAiMessages session_streaming) (Some 1) = Some 1"
    unfolding session_streaming_eval by simp
  have h2: "msg_id (msg_at session_streaming 1) = Some 2"
    unfolding session_streaming_eval by (simp add: msg_at_def)
  have h3: "\<not> next_fails session_streaming"
    unfolding session_streaming_eval by (simp add: next_fails_def)
  have h4: "find_message 2 (store session_streaming) =
     Some \<lparr>msg_id = Some 2, msg_chatId = Some 1, msg_role = Assistant, msg_content = ''Hello'',
           msg_meta = None, msg_context = None, msg_createdAt = 0\<rparr>"
    unfolding session_streaming_eval by (simp add: find_message_def)
  from C3_finalize [OF h1 h2 h4 h3, of "[7]"] h1 h2 h3 h4 show ?thesis by simp
qed

text \<open>The id that the amended claim asks for is there in every world the session can
  reach.\<close>

lemma reachable_inflight_has_id:
  assumes "map_of (ongoingAiMessages (run evs (fresh_session s))) chatId = Some a"
  shows "\<exists>i. msg_id (msg_at (run evs (fresh_session s)) a) = Some i"
  using inflight_has_id [OF reachable_inflight_ok assms] .

text \<open>
  Claim C4. When the in-flight map has no entry for the chat id, \<^verbatim>\<open>handleAiCompletion\<close>
  returns normally and the world after it is the world before it with one more console
  line, the logged error: no message is created, and the store, the chat list, the active
  chat, the message list and the in-flight map are the same. (The \<^verbatim>\<open>debugger\<close> statement
  of that branch does nothing without an attached debugger.)
\<close>

theorem C4_complete_without_inflight:
  "map_of (ongoingAiMessages w) chatId = None \<Longrightarrow>
   handleAiCompletion context chatId w =
     (Return (), w\<lparr>console := console w @ [ConsoleError ''no ongoing message to finalize:'']\<rparr>)"
  by (simp add: handleAiCompletion_def console_error_def)

theorem C4_witness:
  "map_of (ongoingAiMessages session_asked) (Some 1) = None \<and>
   handleAiCompletion [7] (Some 1) session_asked =
     (Return (),
      session_asked\<lparr>console := console session_asked @
                       [ConsoleError ''no ongoing message to finalize:'']\<rparr>)"
proof -
  have h: "map_of (ongoingAiMessages session_asked) (Some 1) = None"
    by (simp add: eval_defs)
  show ?thesis
    using h C4_complete_without_inflight [OF h, of "[7]"] by simp
qed

subsection \<open>Where the continuation token lives\<close>

text \<open>\<^verbatim>\<open>addUserMessage\<close> with every external call succeeding: the message list it leaves is
  the persisted list of the active chat, read afresh, followed by the new user message.\<close>

lemma addUserMessage_refreshes:
  assumes "activeChat w = Some ac" and "chat_id (chat_at w ac) = Some c" and "failures w = []"
  shows "messages_view (snd (addUserMessage content w)) =
           messages_of c (store w) @
           [\<lparr>msg_id = Some (Suc (messages_key (store w))), msg_chatId = Some c, msg_role = User,
             msg_content = content, msg_meta = None, msg_context = None,
             msg_createdAt = clock w\<rparr>]"
  using assms
  by (simp add: addUserMessage_def io_defs dbLayer_getMessages_def dbLayer_addMessage_def
      generate_def alloc_defs setMessages_def console_defs Let_def chat_at_def
      messages_view_def msg_at_nth nth_fresh_block_tail nth_append store_call_quiet)

text \<open>
  Claim C10. \<^verbatim>\<open>handleAiCompletion\<close> never touches the Message objects or the message list,
  whatever the chat id and whatever the store answers: every message in memory shows after
  the completion the context it showed before (none, for a message that was streaming).
  When the chat id has an in-flight message whose record is in the store, in the active
  chat, and every external call succeeds, the token is written to that persisted record;
  and after the next \<^verbatim>\<open>addUserMessage\<close>, which reloads the list from the store, the record
  with the token is in the message list.
\<close>

theorem C10_token_only_in_store:
  "messages_view (snd (handleAiCompletion context chatId w)) = messages_view w \<and>
   msg_heap (snd (handleAiCompletion context chatId w)) = msg_heap w \<and>
   (map_of (ongoingAiMessages w) chatId = Some a \<and> msg_id (msg_at w a) = Some i \<and>
    find_message i (store w) = Some r \<and> msg_chatId r = Some c \<and>
    activeChat w = Some ac \<and> chat_id (chat_at w ac) = Some c \<and> failures w = [] \<longrightarrow>
      find_message i (store (snd (handleAiCompletion context chatId w))) =
        Some (r\<lparr>msg_context := Some context\<rparr>) \<and>
      r\<lparr>msg_context := Some context\<rparr> \<in>
        set (messages_view (snd (addUserMessage content
               (snd (handleAiCompletion context chatId w))))))"
proof (intro conjI impI)
  let ?w1 = "snd (handleAiCompletion context chatId w)"
  from handleAiCompletion_effect [of "context" chatId w]
  show v: "messages_view ?w1 = messages_view w" and "msg_heap ?w1 = msg_heap w"
    by (simp_all add: messages_view_def msg_at_nth)
  assume h: "map_of (ongoingAiMessages w) chatId = Some a \<and> msg_id (msg_at w a) = Some i \<and>
    find_message i (store w) = Some r \<and> msg_chatId r = Some c \<and>
    activeChat w = Some ac \<and> chat_id (chat_at w ac) = Some c \<and> failures w = []"
  then have nf: "\<not> next_fails w" by (simp add: next_fails_def)
  from h have h1: "map_of (ongoingAiMessages w) chatId = Some a"
    and h2: "msg_id (msg_at w a) = Some i" by simp_all
  note e = handleAiCompletion_quiet [OF h1 h2 nf, of "context"]
  show s: "find_message i (store ?w1) = Some (r\<lparr>msg_context := Some context\<rparr>)"
    using h by (simp add: e find_message_def find_map_upd)
  have "r\<lparr>msg_context := Some context\<rparr> \<in> set (messages_tbl (store ?w1))"
    using s by (auto simp: find_message_def find_Some_iff)
  then have p: "r\<lparr>msg_context := Some context\<rparr> \<in> set (messages_of c (store ?w1))"
    using h by (simp add: messages_of_def)
  have "activeChat ?w1 = Some ac" "chat_id (chat_at ?w1 ac) = Some c" "failures ?w1 = []"
    using h by (simp_all add: e chat_at_def)
  from addUserMessage_refreshes [OF this, of content] p
  show "r\<lparr>msg_context := Some context\<rparr> \<in>
        set (messages_view (snd (addUserMessage content ?w1)))"
    by simp
qed

theorem C10_witness:
  "messages_view (snd (handleAiCompletion [7] (Some 1) session_streaming)) =
     [\<lparr>msg_id = Some 1, msg_chatId = Some 1, msg_role = User, msg_content = ''hi'',
       msg_meta = None, msg_context = None, msg_createdAt = 0\<rparr>,
      \<lparr>msg_id = Some 2, msg_chatId = Some 1, msg_role = Assistant, msg_content = ''Hello'',
       msg_meta = None, msg_context = None, msg_createdAt = 0\<rparr>] \<and>
   find_message 2 (store (snd (handleAiCompletion [7] (Some 1) session_streaming))) =
     Some \<lparr>msg_id = Some 2, msg_chatId = Some 1, msg_role = Assistant, msg_content = ''Hello'',
       msg_meta = None, msg_context = Some [7], msg_createdAt = 0\<rparr> \<and>
   \<lparr>msg_id = Some 2, msg_chatId = Some 1, msg_role = Assistant, msg_content = ''Hello'',
       msg_meta = None, msg_context = Some [7], msg_createdAt = 0\<rparr> \<in>
     set (messages_view (snd (addUserMessage ''more''
            (snd (handleAiCompletion [7] (Some 1) session_streaming)))))"
proof -
  let ?r = "\<lparr>msg_id = Some 2, msg_chatId = Some 1, msg_role = Assistant, msg_content = ''Hello'',
       msg_meta = None, msg_context = None, msg_createdAt = 0\<rparr>"
  have h1: "map_of (ongoingAiMessages session_streaming) (Some 1) = Some 1"
    unfolding session_streaming_eval by simp
  have h2: "msg_id (msg_at session_streaming 1) = Some 2"
    unfolding session_streaming_eval by (simp add: msg_at_def)
  have h3: "find_message 2 (store session_streaming) = Some ?r"
    unfolding session_streaming_eval by (simp add: find_message_def)
  have h4: "msg_chatId ?r = Some 1" by simp
  have h5: "activeChat session_streaming = Some 0"
    unfolding session_streaming_eval by simp
  have h6: "chat_id (chat_at session_streaming 0) = Some 1"
    unfolding session_streaming_eval by (simp add: chat_at_def)
  have h7: "failures session_streaming = []"
    unfolding session_streaming_eval by simp
  have v: "messages_view session_streaming =
     [\<lparr>msg_id = Some 1, msg_chatId = Some 1, msg_role = User, msg_content = ''hi'',
       msg_meta = None, msg_context = None, msg_createdAt = 0\<rparr>, ?r]"
    unfolding session_streaming_eval by (simp add: messages_view_def msg_at_def)
  from C10_token_only_in_store
         [of "[7]" "Some 1" session_streaming 1 2 ?r 1 0 "''more''"] h1 h2 h3 h4 h5 h6 h7 v
  show ?thesis by simp
qed

subsection \<open>Fragments for a chat that is not the active one\<close>

text \<open>
  Claim C1, evaluated where it fails. A question is asked in chat 1, the user starts chat 2
  (now active, with no persisted message), and the answer for chat 1 streams in. START
  (line 276) pushes the new assistant message of chat 1 onto the visible list; APPEND
  (line 288) replaces the visible list by the persisted messages of chat 1, the streaming
  chat. In both worlds the active chat is chat 2 and its persisted messages are none, yet
  the message list shows messages of chat 1.
\<close>

theorem C1_partial_for_other_chat:
  "active_id (run [StartNewChat ''second'' ''m'', Partial ''He'' (Some 1)] session_asked) =
     Some 2 \<and>
   persisted_of_active (run [StartNewChat ''second'' ''m'', Partial ''He'' (Some 1)]
       session_asked) = [] \<and>
   messages_view (run [StartNewChat ''second'' ''m'', Partial ''He'' (Some 1)] session_asked) =
     [\<lparr>msg_id = Some 2, msg_chatId = Some 1, msg_role = Assistant, msg_content = ''He'',
       msg_meta = None, msg_context = None, msg_createdAt = 0\<rparr>] \<and>
   active_id (run [StartNewChat ''second'' ''m'', Partial ''He'' (Some 1),
                   Partial ''llo'' (Some 1)] session_asked) = Some 2 \<and>
   persisted_of_active (run [StartNewChat ''second'' ''m'', Partial ''He'' (Some 1),
                   Partial ''llo'' (Some 1)] session_asked) = [] \<and>
   messages_view (run [StartNewChat ''second'' ''m'', Partial ''He'' (Some 1),
                   Partial ''llo'' (Some 1)] session_asked) =
     [\<lparr>msg_id = Some 1, msg_chatId = Some 1, msg_role = User, msg_content = ''hi'',
       msg_meta = None, msg_context = None, msg_createdAt = 0\<rparr>,
      \<lparr>msg_id = Some 2, msg_chatId = Some 1, msg_role = Assistant, msg_content = ''Hello'',
       msg_meta = None, msg_context = None, msg_createdAt = 0\<rparr>]"
  by (simp add: eval_defs)

section \<open>The session orchestrator\<close>

subsection \<open>switchModel\<close>

lemma switchModel_guard:
  "activeChat w = None \<or> messages w \<noteq> [] \<Longrightarrow> switchModel model w = (Return (), w)"
  by (auto simp: switchModel_def hasMessages_def split: option.splits)

lemma switchModel_ok:
  assumes "activeChat w = Some ac" and "messages w = []" and "chat_id (chat_at w ac) = Some k"
    and "\<not> next_fails w"
  shows "switchModel model w =
    (Return (),
     w\<lparr>failures := tl (failures w),
       store := (store w)\<lparr>chats_tbl :=
         map (\<lambda>c. if chat_id c = Some k then c\<lparr>chat_model := model\<rparr> else c) (chats_tbl (store w))\<rparr>,
       chat_heap := (chat_heap w)[ac := (chat_at w ac)\<lparr>chat_model := model\<rparr>]\<rparr>)"
  using assms
  by (auto simp: switchModel_def hasMessages_def io_defs dbLayer_updateChat_def store_call_def
      next_fails_def chat_at_def split: list.splits)

lemma switchModel_rejected:
  assumes "activeChat w = Some ac" and "messages w = []" and "next_fails w"
  shows "switchModel model w =
    (Return (), w\<lparr>failures := tl (failures w),
                   console := console w @ [ConsoleError ''Failed to switch model'']\<rparr>)"
  using assms
  by (auto simp: switchModel_def hasMessages_def io_defs dbLayer_updateChat_def store_call_def
      next_fails_def console_defs split: list.splits)

text \<open>
  Claim C5. Without an active chat, or with a non-empty message list, \<^verbatim>\<open>switchModel\<close>
  returns the world it was given: no model changes, in memory or in the store. With an
  active chat and an empty message list, a rejected store call leaves the heap and the
  store as they were; an accepted one sets the model of the active Chat object and of the
  stored chat with its id, and nothing else: every other Chat object, every other field of
  the store, and every other field of the world but the consumed call outcome are the same.
  (The Chat object of \<^verbatim>\<open>activeChat\<close> may also be an element of \<^verbatim>\<open>chats\<close>; it is one object.)
\<close>

theorem C5_switchModel_guarded:
  "(activeChat w = None \<or> messages w \<noteq> [] \<longrightarrow> switchModel model w = (Return (), w)) \<and>
   (activeChat w = Some ac \<and> messages w = [] \<and> next_fails w \<longrightarrow>
      fst (switchModel model w) = Return () \<and>
      chat_heap (snd (switchModel model w)) = chat_heap w \<and>
      store (snd (switchModel model w)) = store w) \<and>
   (activeChat w = Some ac \<and> messages w = [] \<and> ac < length (chat_heap w) \<and>
    chat_id (chat_at w ac) = Some k \<and> \<not> next_fails w \<longrightarrow>
      fst (switchModel model w) = Return () \<and>
      chat_at (snd (switchModel model w)) ac = (chat_at w ac)\<lparr>chat_model := model\<rparr> \<and>
      (\<forall>a. a \<noteq> ac \<longrightarrow> chat_at (snd (switchModel model w)) a = chat_at w a) \<and>
      chats_tbl (store (snd (switchModel model w))) =
        map (\<lambda>c. if chat_id c = Some k then c\<lparr>chat_model := model\<rparr> else c) (chats_tbl (store w)) \<and>
      (store (snd (switchModel model w)))\<lparr>chats_tbl := chats_tbl (store w)\<rparr> = store w \<and>
      (snd (switchModel model w))
        \<lparr>store := store w, chat_heap := chat_heap w, failures := failures w\<rparr> = w)"
proof (intro conjI impI)
  assume "activeChat w = None \<or> messages w \<noteq> []"
  then show "switchModel model w = (Return (), w)" by (rule switchModel_guard)
next
  assume a: "activeChat w = Some ac \<and> messages w = [] \<and> next_fails w"
  then have e: "switchModel model w =
    (Return (), w\<lparr>failures := tl (failures w),
                   console := console w @ [ConsoleError ''Failed to switch model'']\<rparr>)"
    by (intro switchModel_rejected) auto
  show "fst (switchModel model w) = Return ()" by (simp add: e)
  show "chat_heap (snd (switchModel model w)) = chat_heap w" by (simp add: e)
  show "store (snd (switchModel model w)) = store w" by (simp add: e)
next
  assume a: "activeChat w = Some ac \<and> messages w = [] \<and> ac < length (chat_heap w) \<and>
    chat_id (chat_at w ac) = Some k \<and> \<not> next_fails w"
  then have e: "switchModel model w =
    (Return (),
     w\<lparr>failures := tl (failures w),
       store := (store w)\<lparr>chats_tbl :=
         map (\<lambda>c. if chat_id c = Some k then c\<lparr>chat_model := model\<rparr> else c) (chats_tbl (store w))\<rparr>,
       chat_heap := (chat_heap w)[ac := (chat_at w ac)\<lparr>chat_model := model\<rparr>]\<rparr>)"
    by (intro switchModel_ok) auto
  from a have v: "ac < length (chat_heap w)" by simp
  show "fst (switchModel model w) = Return ()" by (simp add: e)
  show "chat_at (snd (switchModel model w)) ac = (chat_at w ac)\<lparr>chat_model := model\<rparr>"
    using v by (simp add: e chat_at_def)
  show "\<forall>a. a \<noteq> ac \<longrightarrow> chat_at (snd (switchModel model w)) a = chat_at w a"
    by (simp add: e chat_at_def)
  show "chats_tbl (store (snd (switchModel model w))) =
        map (\<lambda>c. if chat_id c = Some k then c\<lparr>chat_model := model\<rparr> else c) (chats_tbl (store w))"
    by (simp add: e)
  show "(store (snd (switchModel model w)))\<lparr>chats_tbl := chats_tbl (store w)\<rparr> = store w"
    by (simp add: e)
  show "(snd (switchModel model w))
        \<lparr>store := store w, chat_heap := chat_heap w, failures := failures w\<rparr> = w"
    by (simp add: e)
qed

text \<open>The witness: a chat with a message (no change), a fresh chat with the store call
  rejected (no change), and a fresh chat with the store call accepted (the model is set in
  the object and in the store).\<close>

theorem C5_witness:
  "messages session_asked \<noteq> [] \<and>
   switchModel ''llama'' session_asked = (Return (), session_asked) \<and>
   activeChat (run [Initialize, Outcomes [True]] (fresh_session empty_store)) = Some 0 \<and>
   messages (run [Initialize, Outcomes [True]] (fresh_session empty_store)) = [] \<and>
   next_fails (run [Initialize, Outcomes [True]] (fresh_session empty_store)) \<and>
   store (snd (switchModel ''llama''
       (run [Initialize, Outcomes [True]] (fresh_session empty_store)))) =
     store (run [Initialize, Outcomes [True]] (fresh_session empty_store)) \<and>
   activeChat (run [Initialize] (fresh_session empty_store)) = Some 0 \<and>
   messages (run [Initialize] (fresh_session empty_store)) = [] \<and>
   \<not> next_fails (run [Initialize] (fresh_session empty_store)) \<and>
   chat_at (snd (switchModel ''llama'' (run [Initialize] (fresh_session empty_store)))) 0 =
     \<lparr>chat_id = Some 1, chat_name = ''New chat'', chat_model = ''llama'', chat_createdAt = 0\<rparr> \<and>
   chats_tbl (store (snd (switchModel ''llama'' (run [Initialize] (fresh_session empty_store))))) =
     [\<lparr>chat_id = Some 1, chat_name = ''New chat'', chat_model = ''llama'', chat_createdAt = 0\<rparr>]"
proof -
  let ?w2 = "run [Initialize, Outcomes [True]] (fresh_session empty_store)"
  let ?w3 = "run [Initialize] (fresh_session empty_store)"
  have a1: "messages session_asked \<noteq> []" by (simp add: eval_defs)
  have b1: "activeChat ?w2 = Some 0" and b2: "messages ?w2 = []" and b3: "next_fails ?w2"
    by (simp_all add: eval_defs)
  have c1: "activeChat ?w3 = Some 0" and c2: "messages ?w3 = []"
    and c3: "0 < length (chat_heap ?w3)" and c4: "chat_id (chat_at ?w3 0) = Some 1"
    and c5: "\<not> next_fails ?w3"
    and c6: "chat_at ?w3 0 =
      \<lparr>chat_id = Some 1, chat_name = ''New chat'', chat_model = ''n/a'', chat_createdAt = 0\<rparr>"
    and c7: "chats_tbl (store ?w3) =
      [\<lparr>chat_id = Some 1, chat_name = ''New chat'', chat_model = ''n/a'', chat_createdAt = 0\<rparr>]"
    by (simp_all add: eval_defs)
  from C5_switchModel_guarded [of session_asked "''llama''" 0 1] a1
  have r1: "switchModel ''llama'' session_asked = (Return (), session_asked)" by blast
  from C5_switchModel_guarded [of ?w2 "''llama''" 0 1] b1 b2 b3
  have r2: "store (snd (switchModel ''llama'' ?w2)) = store ?w2" by blast
  from C5_switchModel_guarded [of ?w3 "''llama''" 0 1] c1 c2 c3 c4 c5
  have r3: "chat_at (snd (switchModel ''llama'' ?w3)) 0 = (chat_at ?w3 0)\<lparr>chat_model := ''llama''\<rparr>"
    and r4: "chats_tbl (store (snd (switchModel ''llama'' ?w3))) =
        map (\<lambda>c. if chat_id c = Some 1 then c\<lparr>chat_model := ''llama''\<rparr> else c)
          (chats_tbl (store ?w3))"
    by blast+
  from r3 c6 have r3': "chat_at (snd (switchModel ''llama'' ?w3)) 0 =
     \<lparr>chat_id = Some 1, chat_name = ''New chat'', chat_model = ''llama'', chat_createdAt = 0\<rparr>"
    by simp
  from r4 c7 have r4': "chats_tbl (store (snd (switchModel ''llama'' ?w3))) =
     [\<lparr>chat_id = Some 1, chat_name = ''New chat'', chat_model = ''llama'', chat_createdAt = 0\<rparr>]"
    by simp
  from a1 r1 b1 b2 b3 r2 c1 c2 c5 r3' r4' show ?thesis by blast
qed

subsection \<open>deleteChat\<close>

lemma switchChat_found:
  assumes "failures w = []" and "find_chat j (store w) = Some c"
  shows "switchChat (Some j) w =
    (Return (),
     w\<lparr>chat_heap := chat_heap w @ [c],
       msg_heap := msg_heap w @ messages_of j (store w),
       activeChat := Some (length (chat_heap w)),
       messages := [length (msg_heap w) ..< length (msg_heap w) + length (messages_of j (store w))]\<rparr>)"
  using assms
  by (simp add: switchChat_def io_defs dbLayer_getChat_def dbLayer_getMessages_def alloc_defs
      setActiveChat_def setMessages_def store_call_quiet)

lemma startNewChat_quiet:
  assumes "failures w = []"
  shows "startNewChat name model w =
    (Return (),
     w\<lparr>store := (store w)\<lparr>chats_tbl := chats_tbl (store w) @
            [\<lparr>chat_id = Some (Suc (chats_key (store w))), chat_name = name, chat_model = model,
              chat_createdAt = clock w\<rparr>],
          chats_key := Suc (chats_key (store w))\<rparr>,
       chat_heap := chat_heap w @
            [\<lparr>chat_id = Some (Suc (chats_key (store w))), chat_name = name, chat_model = model,
              chat_createdAt = clock w\<rparr>],
       chats := chats w @ [length (chat_heap w)],
       activeChat := Some (length (chat_heap w)),
       messages := []\<rparr>)"
  using assms
  by (simp add: startNewChat_def io_defs dbLayer_addChat_def alloc_defs
      setActiveChat_def setMessages_def Let_def store_call_quiet)

text \<open>\<^verbatim>\<open>deleteChat\<close> with every store call accepted, by the branch of line 252 it takes.\<close>

lemma deleteChat_of_other:
  assumes "failures w = []" and "active_id w \<noteq> Some k"
  shows "deleteChat (Some k) w = (Return (), after_delete k w)"
  using assms
  by (simp add: deleteChat_def try_catch_def await_def exec_def dbLayer_deleteChat_def
      dbLayer_deleteMessagesOfChat_def after_delete_def active_id_def chat_at_def
      store_call_quiet split: option.splits)

lemma deleteChat_of_active:
  assumes "failures w = []" and "activeChat w = Some ac" and "chat_id (chat_at w ac) = Some k"
  shows "deleteChat (Some k) w =
    (case sortedChats (after_delete k w) of
       a # _ \<Rightarrow> switchChat (chat_id (chat_at w a)) (after_delete k w)
     | [] \<Rightarrow> startNewChat ''new chat'' (chat_model (chat_at w ac)) (after_delete k w))"
  using assms
  by (simp add: deleteChat_def try_catch_def await_def exec_def dbLayer_deleteChat_def
      dbLayer_deleteMessagesOfChat_def after_delete_def active_id_def chat_at_def
      sortedChats_def store_call_quiet caught_return [OF switchChat_returns]
      caught_return [OF startNewChat_returns] split: list.splits)

text \<open>
  Claim C6, as stated, fails for a chat that is not the active one: the replacement chat
  is created only under the guard of line 252. In the example one chat exists, in the list
  and in the store, and no chat is active; after \<^verbatim>\<open>deleteChat\<close> no chat exists.
\<close>

theorem C6_counterexample:
  "chats_view session_none_active =
     [\<lparr>chat_id = Some 1, chat_name = ''New chat'', chat_model = ''n/a'', chat_createdAt = 0\<rparr>] \<and>
   chats_tbl (store session_none_active) =
     [\<lparr>chat_id = Some 1, chat_name = ''New chat'', chat_model = ''n/a'', chat_createdAt = 0\<rparr>] \<and>
   active_view session_none_active = None \<and>
   chats_view (run [DeleteChat (Some 1)] session_none_active) = [] \<and>
   chats_tbl (store (run [DeleteChat (Some 1)] session_none_active)) = [] \<and>
   active_view (run [DeleteChat (Some 1)] session_none_active) = None"
  by (simp add: eval_defs)

text \<open>
  Claim C6, amended. In a session whose chat list holds exactly one chat, which is the
  active chat, \<^verbatim>\<open>deleteChat\<close> on it with every store call accepted returns normally and leaves
  exactly one chat in the list: a newly created one named \<^verbatim>\<open>new chat\<close>, active, with an empty
  message list, whose model is the model of the deleted active chat. In the store the
  deleted chat is gone and the new chat is added.
\<close>

theorem C6_delete_last_active_chat:
  assumes "chats w = [c]" and "chat_id (chat_at w c) = Some k"
    and "activeChat w = Some ac" and "chat_id (chat_at w ac) = Some k"
    and "failures w = []"
  shows "fst (deleteChat (Some k) w) = Return () \<and>
         chats_view (snd (deleteChat (Some k) w)) =
           [\<lparr>chat_id = Some (Suc (chats_key (store w))), chat_name = ''new chat'',
             chat_model = chat_model (chat_at w ac), chat_createdAt = clock w\<rparr>] \<and>
         active_view (snd (deleteChat (Some k) w)) =
           Some \<lparr>chat_id = Some (Suc (chats_key (store w))), chat_name = ''new chat'',
                 chat_model = chat_model (chat_at w ac), chat_createdAt = clock w\<rparr> \<and>
         messages (snd (deleteChat (Some k) w)) = [] \<and>
         chats_tbl (store (snd (deleteChat (Some k) w))) =
           filter (\<lambda>c. chat_id c \<noteq> Some k) (chats_tbl (store w)) @
           [\<lparr>chat_id = Some (Suc (chats_key (store w))), chat_name = ''new chat'',
             chat_model = chat_model (chat_at w ac), chat_createdAt = clock w\<rparr>]"
proof -
  have s: "sortedChats (after_delete k w) = []"
    using assms by (simp add: sortedChats_def after_delete_def)
  have f: "failures (after_delete k w) = []" using assms by (simp add: after_delete_def)
  have e: "deleteChat (Some k) w =
      startNewChat ''new chat'' (chat_model (chat_at w ac)) (after_delete k w)"
    using assms s by (simp add: deleteChat_of_active)
  show ?thesis
    unfolding e startNewChat_quiet [OF f]
    using assms
    by (simp add: after_delete_def chats_view_def active_view_def chat_at_nth)
qed

theorem C6_witness:
  "chats session_one_chat = [0] \<and> chat_id (chat_at session_one_chat 0) = Some 1 \<and>
   activeChat session_one_chat = Some 0 \<and> failures session_one_chat = [] \<and>
   chat_model (chat_at session_one_chat 0) = ''llama'' \<and>
   fst (deleteChat (Some 1) session_one_chat) = Return () \<and>
   chats_view (snd (deleteChat (Some 1) session_one_chat)) =
     [\<lparr>chat_id = Some 2, chat_name = ''new chat'', chat_model = ''llama'', chat_createdAt = 0\<rparr>] \<and>
   chats_tbl (store (snd (deleteChat (Some 1) session_one_chat))) =
     [\<lparr>chat_id = Some 2, chat_name = ''new chat'', chat_model = ''llama'', chat_createdAt = 0\<rparr>]"
proof -
  have h1: "chats session_one_chat = [0]" and h2: "chat_id (chat_at session_one_chat 0) = Some 1"
    and h3: "activeChat session_one_chat = Some 0" and h5: "failures session_one_chat = []"
    and m: "chat_model (chat_at session_one_chat 0) = ''llama''"
    and k: "chats_key (store session_one_chat) = 1" and t: "clock session_one_chat = 0"
    and r: "chats_tbl (store session_one_chat) =
      [\<lparr>chat_id = Some 1, chat_name = ''New chat'', chat_model = ''llama'', chat_createdAt = 0\<rparr>]"
    by (simp_all add: eval_defs)
  from C6_delete_last_active_chat [OF h1 h2 h3 h2 h5] h1 h2 h3 h5 m k t r
  show ?thesis by simp
qed

text \<open>
  Claim C7, as stated, fails in two ways; both runs start from three chats created at 0,
  5 and 9 with the newest, chat 3, active, and delete chat 3. First, the store rejects the
  read of \<^verbatim>\<open>switchChat\<close>: the rejection is caught and logged there, and the active chat stays
  the deleted chat 3. Second, an earlier \<^verbatim>\<open>deleteChat\<close> of chat 2 had its second store call
  rejected, after the record of chat 2 was deleted and before line 250 took chat 2 from
  the list. With every store call of the deletion of chat 3 accepted, \<^verbatim>\<open>switchChat\<close> is
  called with the id of chat 2, the newest of the list; the store has no such chat, so
  nothing is switched and nothing is logged: the active chat stays the deleted chat 3,
  while chat 1 is both in the list and in the store.
\<close>

theorem C7_counterexample:
  "active_id (run [Outcomes [False, False, True], DeleteChat (Some 3)] session_three_chats) =
     Some 3 \<and>
   map chat_id (chats_view
     (run [Outcomes [False, False, True], DeleteChat (Some 3)] session_three_chats)) =
     [Some 1, Some 2] \<and>
   failures (run [Outcomes [False, True], DeleteChat (Some 2)] session_three_chats) = [] \<and>
   active_id (run [Outcomes [False, True], DeleteChat (Some 2)] session_three_chats) = Some 3 \<and>
   active_id (run [Outcomes [False, True], DeleteChat (Some 2), DeleteChat (Some 3)]
     session_three_chats) = Some 3 \<and>
   map chat_id (chats_view (run [Outcomes [False, True], DeleteChat (Some 2), DeleteChat (Some 3)]
     session_three_chats)) = [Some 1, Some 2] \<and>
   map chat_id (chats_tbl (store (run [Outcomes [False, True], DeleteChat (Some 2),
     DeleteChat (Some 3)] session_three_chats))) = [Some 1] \<and>
   console (run [Outcomes [False, True], DeleteChat (Some 2), DeleteChat (Some 3)]
     session_three_chats) =
     console (run [Outcomes [False, True], DeleteChat (Some 2)] session_three_chats)"
  by (simp add: eval_defs)

text \<open>
  Claim C7, amended. Let the active chat, of id \<open>k\<close>, be deleted with every store call
  accepted, in a session where every chat of the list is persisted and some chat other
  than \<open>k\<close> is in the list. Afterwards the list is the old one without \<open>k\<close>, and the active
  chat is the persisted chat with the id of a chat \<open>a0\<close> of that list such that no chat of
  the list was created later than \<open>a0\<close>; the message list shows exactly the persisted
  messages of that chat.
\<close>

theorem C7_delete_active_switches_to_newest:
  assumes "activeChat w = Some ac" and "chat_id (chat_at w ac) = Some k"
    and "failures w = []"
    and "filter (\<lambda>a. chat_id (chat_at w a) \<noteq> Some k) (chats w) \<noteq> []"
    and "\<forall>a \<in> set (chats w). \<exists>j. chat_id (chat_at w a) = Some j \<and> find_chat j (store w) \<noteq> None"
  shows "\<exists>a0 j. a0 \<in> set (chats (snd (deleteChat (Some k) w))) \<and>
           chats (snd (deleteChat (Some k) w)) =
             filter (\<lambda>a. chat_id (chat_at w a) \<noteq> Some k) (chats w) \<and>
           (\<forall>a \<in> set (chats (snd (deleteChat (Some k) w))).
              chat_createdAt (chat_at w a) \<le> chat_createdAt (chat_at w a0)) \<and>
           chat_id (chat_at w a0) = Some j \<and> j \<noteq> k \<and>
           active_view (snd (deleteChat (Some k) w)) = find_chat j (store w) \<and>
           active_id (snd (deleteChat (Some k) w)) = Some j \<and>
           messages_view (snd (deleteChat (Some k) w)) =
             messages_of j (store (snd (deleteChat (Some k) w))) \<and>
           messages_view (snd (deleteChat (Some k) w)) =
             persisted_of_active (snd (deleteChat (Some k) w))"
proof -
  let ?w1 = "after_delete k w"
  let ?rest = "filter (\<lambda>a. chat_id (chat_at w a) \<noteq> Some k) (chats w)"
  have srt: "sortedChats ?w1 = sort_key (\<lambda>a. - chat_createdAt (chat_at w a)) ?rest"
    by (simp add: sortedChats_def after_delete_def chat_at_def)
  from assms(4) have "sortedChats ?w1 \<noteq> []"
    unfolding srt by (metis length_sort list.size(3) length_0_conv)
  then obtain a0 as where s: "sortedChats ?w1 = a0 # as" by (cases "sortedChats ?w1") auto
  from sort_key_head [OF s [unfolded srt]]
  have in_rest: "a0 \<in> set ?rest"
    and newest: "\<forall>a \<in> set ?rest. chat_createdAt (chat_at w a) \<le> chat_createdAt (chat_at w a0)"
    by auto
  from in_rest have a0_in: "a0 \<in> set (chats w)" and a0_k: "chat_id (chat_at w a0) \<noteq> Some k"
    by auto
  from assms(5) a0_in obtain j c where j: "chat_id (chat_at w a0) = Some j"
    and fc: "find_chat j (store w) = Some c" by fastforce
  from j a0_k have jk: "j \<noteq> k" by auto
  have f: "failures ?w1 = []" using assms by (simp add: after_delete_def)
  have fc1: "find_chat j (store ?w1) = Some c"
    using fc jk by (simp add: find_chat_def after_delete_def find_filter_other)
  have mo: "messages_of j (store ?w1) = messages_of j (store w)"
    using jk by (auto simp: messages_of_def after_delete_def intro!: filter_cong)
  have e: "deleteChat (Some k) w = switchChat (Some j) ?w1"
    using assms s j by (simp add: deleteChat_of_active)
  have cid: "chat_id c = Some j"
    using fc by (auto simp: find_chat_def dest: find_Some_iff [THEN iffD1])
  show ?thesis
    apply (rule exI [of _ a0], rule exI [of _ j])
    unfolding e switchChat_found [OF f fc1]
    using in_rest newest j jk fc mo cid
    by (simp add: after_delete_def active_view_def chat_at_nth messages_view_def msg_at_nth
        nth_fresh_block active_id_def persisted_of_active_def messages_of_def)
qed

text \<open>The witness: of three chats created at 0, 5 and 9 the active one, the newest, is
  deleted; the chat created at 5 becomes active.\<close>

theorem C7_witness:
  "activeChat session_three_chats = Some 2 \<and>
   chat_id (chat_at session_three_chats 2) = Some 3 \<and>
   failures session_three_chats = [] \<and>
   filter (\<lambda>a. chat_id (chat_at session_three_chats a) \<noteq> Some 3) (chats session_three_chats) =
     [0, 1] \<and>
   active_view (snd (deleteChat (Some 3) session_three_chats)) =
     Some \<lparr>chat_id = Some 2, chat_name = ''b'', chat_model = ''m'', chat_createdAt = 5\<rparr> \<and>
   messages_view (snd (deleteChat (Some 3) session_three_chats)) =
     persisted_of_active (snd (deleteChat (Some 3) session_three_chats))"
proof -
  let ?w = session_three_chats
  have w: "?w =
     \<lparr>store = \<lparr>chats_tbl =
                  [\<lparr>chat_id = Some 1, chat_name = ''New chat'', chat_model = ''n/a'',
                    chat_createdAt = 0\<rparr>,
                   \<lparr>chat_id = Some 2, chat_name = ''b'', chat_model = ''m'', chat_createdAt = 5\<rparr>,
                   \<lparr>chat_id = Some 3, chat_name = ''c'', chat_model = ''m2'', chat_createdAt = 9\<rparr>],
                messages_tbl = [], chats_key = 3, messages_key = 0\<rparr>,
       failures = [], clock = 9,
       chat_heap =
         [\<lparr>chat_id = Some 1, chat_name = ''New chat'', chat_model = ''n/a'', chat_createdAt = 0\<rparr>,
          \<lparr>chat_id = Some 2, chat_name = ''b'', chat_model = ''m'', chat_createdAt = 5\<rparr>,
          \<lparr>chat_id = Some 3, chat_name = ''c'', chat_model = ''m2'', chat_createdAt = 9\<rparr>],
       msg_heap = [], chats = [0, 1, 2], activeChat = Some 2, messages = [],
       ongoingAiMessages = [], console = [], requests = [], pending = []\<rparr>"
    by (simp add: eval_defs)
  have h1: "activeChat ?w = Some 2" unfolding w by simp
  have h2: "chat_id (chat_at ?w 2) = Some 3" unfolding w by (simp add: chat_at_def)
  have h3: "failures ?w = []" unfolding w by simp
  have r: "filter (\<lambda>a. chat_id (chat_at ?w a) \<noteq> Some 3) (chats ?w) = [0, 1]"
    unfolding w by (simp add: chat_at_def)
  have h4: "filter (\<lambda>a. chat_id (chat_at ?w a) \<noteq> Some 3) (chats ?w) \<noteq> []"
    using r by simp
  have h5: "\<forall>a \<in> set (chats ?w). \<exists>j. chat_id (chat_at ?w a) = Some j \<and>
              find_chat j (store ?w) \<noteq> None"
    unfolding w by (simp add: chat_at_def find_chat_def)
  have t0: "chat_createdAt (chat_at ?w 0) = 0" and t1: "chat_createdAt (chat_at ?w 1) = 5"
    and i0: "chat_id (chat_at ?w 0) = Some 1" and i1: "chat_id (chat_at ?w 1) = Some 2"
    unfolding w by (simp_all add: chat_at_def)
  have f2: "find_chat 2 (store ?w) =
     Some \<lparr>chat_id = Some 2, chat_name = ''b'', chat_model = ''m'', chat_createdAt = 5\<rparr>"
    unfolding w by (simp add: find_chat_def)
  from C7_delete_active_switches_to_newest [OF h1 h2 h3 h4 h5]
  obtain a0 j where a0': "a0 \<in> set (chats (snd (deleteChat (Some 3) ?w)))"
    and c: "chats (snd (deleteChat (Some 3) ?w)) =
              filter (\<lambda>a. chat_id (chat_at ?w a) \<noteq> Some 3) (chats ?w)"
    and newest': "\<forall>a \<in> set (chats (snd (deleteChat (Some 3) ?w))).
              chat_createdAt (chat_at ?w a) \<le> chat_createdAt (chat_at ?w a0)"
    and j: "chat_id (chat_at ?w a0) = Some j"
    and av: "active_view (snd (deleteChat (Some 3) ?w)) = find_chat j (store ?w)"
    and mv: "messages_view (snd (deleteChat (Some 3) ?w)) =
             persisted_of_active (snd (deleteChat (Some 3) ?w))"
    by blast
  from a0' c r have a0: "a0 \<in> set [0, 1::nat]" by simp
  from newest' c r
  have newest: "\<forall>a \<in> set [0, 1::nat]. chat_createdAt (chat_at ?w a) \<le> chat_createdAt (chat_at ?w a0)"
    by simp
  from a0 newest t0 t1 have "a0 = 1" by auto
  with j i1 have "j = 2" by simp
  with av f2 h1 h2 h3 r mv show ?thesis by simp
qed

subsection \<open>Store failures\<close>

lemma perform_returns: "fst (perform e w) = Return ()"
proof (cases e)
  case Initialize
  then show ?thesis by (simp add: initialize_def try_exec_returns)
next
  case (SwitchChat k)
  then show ?thesis by (simp add: switchChat_def try_exec_returns)
next
  case (SwitchModel m)
  then show ?thesis
    by (simp add: switchModel_def try_exec_returns split: option.splits)
next
  case (StartNewChat n m)
  then show ?thesis by (simp add: startNewChat_def try_exec_returns Let_def)
next
  case (AddSystemMessage c m)
  then show ?thesis
    by (simp add: addSystemMessage_def try_exec_returns Let_def split: option.splits)
next
  case (AddUserMessage c)
  then show ?thesis
    by (simp add: addUserMessage_def try_exec_returns Let_def split: option.splits)
next
  case (DeleteChat k)
  then show ?thesis by (simp add: deleteChat_def try_exec_returns)
next
  case WipeDatabase
  then show ?thesis by (simp add: wipeDatabase_def try_exec_returns)
next
  case (Partial r k)
  show ?thesis unfolding Partial perform_Partial by simp
next
  case (Arrives r k)
  then show ?thesis by (simp add: handleAiPartialResponse_returns)
next
  case Settle
  have "fst (resume t v) = Return ()" for t v
    by (cases t) (simp_all add: startAiMessage_rest_def appendToAiMessage_rest_def try_exec_returns)
  with Settle show ?thesis by (simp add: settle_def split: list.splits)
next
  case (Complete c k)
  then show ?thesis
    by (simp add: handleAiCompletion_def try_exec_returns split: option.splits)
next
  case (Clock t)
  then show ?thesis by (simp add: exec_def)
next
  case (Outcomes bs)
  then show ?thesis by (simp add: exec_def)
qed

text \<open>A \<^verbatim>\<open>try\<close> block whose first awaited store call is rejected: the handler's console
  line is all that happens.\<close>

lemma first_call_rejected:
  assumes "failures w = True # fs"
  shows "try_catch (await (await (store_call n) g) h) (\<lambda>e. exec (console_error s)) w =
         (Return (), w\<lparr>failures := fs, console := console w @ [ConsoleError s]\<rparr>)"
  using assms by (simp add: try_catch_def await_def exec_def store_call_rejects console_error_def)

lemma operation_first_failure:
  assumes "is_operation e" and "failures w = True # fs"
  shows "(snd (perform e w))\<lparr>console := console w, failures := failures w\<rparr> = w"
proof (cases e)
  case Initialize
  then show ?thesis
    using assms by (simp add: initialize_def dbLayer_getAllChats_def first_call_rejected)
next
  case (SwitchChat k)
  then show ?thesis
    using assms by (simp add: switchChat_def dbLayer_getChat_def first_call_rejected)
next
  case (SwitchModel m)
  then show ?thesis
    using assms
    by (simp add: switchModel_def dbLayer_updateChat_def first_call_rejected split: option.splits)
next
  case (StartNewChat n m)
  then show ?thesis
    using assms
    by (simp add: startNewChat_def dbLayer_addChat_def first_call_rejected Let_def)
next
  case (AddSystemMessage c m)
  then show ?thesis
    using assms
    by (simp add: addSystemMessage_def dbLayer_addMessage_def first_call_rejected Let_def
        split: option.splits)
next
  case (AddUserMessage c)
  then show ?thesis
    using assms
    by (simp add: addUserMessage_def dbLayer_getMessages_def first_call_rejected Let_def
        console_warn_def split: option.splits)
next
  case (DeleteChat k)
  then show ?thesis
    using assms by (simp add: deleteChat_def dbLayer_deleteChat_def first_call_rejected)
next
  case WipeDatabase
  then show ?thesis
    using assms by (simp add: wipeDatabase_def dbLayer_clearChats_def first_call_rejected)
qed (use assms in simp_all)

text \<open>
  Claim C9, as stated, fails in its second half: a store call rejected after the first
  one leaves the state changed. \<^verbatim>\<open>switchChat\<close> sets the active chat (line 98) before it reads
  the messages (line 99); when that read is rejected the error is logged, the active chat is
  already chat 1, and the message list is still the one of chat 2.
\<close>

theorem C9_counterexample:
  "active_view session_two_chats =
     Some \<lparr>chat_id = Some 2, chat_name = ''b'', chat_model = ''m'', chat_createdAt = 0\<rparr> \<and>
   fst (switchChat (Some 1) (run [Outcomes [False, True]] session_two_chats)) = Return () \<and>
   active_view (run [Outcomes [False, True], SwitchChat (Some 1)] session_two_chats) =
     Some \<lparr>chat_id = Some 1, chat_name = ''New chat'', chat_model = ''n/a'', chat_createdAt = 0\<rparr> \<and>
   messages_view (run [Outcomes [False, True], SwitchChat (Some 1)] session_two_chats) =
     [\<lparr>msg_id = Some 1, msg_chatId = Some 2, msg_role = User, msg_content = ''hi'',
       msg_meta = None, msg_context = None, msg_createdAt = 0\<rparr>] \<and>
   console (run [Outcomes [False, True], SwitchChat (Some 1)] session_two_chats) =
     console session_two_chats @ [ConsoleError ''Failed to switch to chat with ID'']"
  by (simp add: eval_defs)

text \<open>
  Claim C9, amended. Every operation, and every callback, returns normally whatever the
  store answers: no exception reaches the caller. When the first store call of an operation
  is rejected, the world after the operation is the world before it but for the console
  line and the consumed outcome: the chat list, the active chat, the message list, the
  in-flight map, the objects and the store are the same. (A rejection of a later call can
  leave the state partly updated.)
\<close>

theorem C9_caught_and_first_failure:
  "fst (perform e w) = Return () \<and>
   (is_operation e \<and> failures w = True # fs \<longrightarrow>
      (snd (perform e w))\<lparr>console := console w, failures := failures w\<rparr> = w)"
  using perform_returns operation_first_failure by blast

theorem C9_witness:
  "is_operation (SwitchChat (Some 1)) \<and>
   failures (run [Outcomes [True]] session_two_chats) = [True] \<and>
   fst (perform (SwitchChat (Some 1)) (run [Outcomes [True]] session_two_chats)) = Return () \<and>
   (snd (perform (SwitchChat (Some 1)) (run [Outcomes [True]] session_two_chats)))
      \<lparr>console := console (run [Outcomes [True]] session_two_chats),
       failures := failures (run [Outcomes [True]] session_two_chats)\<rparr> =
     run [Outcomes [True]] session_two_chats"
proof -
  have h1: "is_operation (SwitchChat (Some 1))" by simp
  have h2: "failures (run [Outcomes [True]] session_two_chats) = [True]"
    by (simp add: exec_def)
  from C9_caught_and_first_failure
         [of "SwitchChat (Some 1)" "run [Outcomes [True]] session_two_chats" "[]"] h1 h2
  show ?thesis by blast
qed

subsection \<open>Identifiers and persisted records of the messages in memory\<close>

text \<open>
  Claim C8, evaluated where it fails. \<^verbatim>\<open>deleteChat\<close> deletes the records of a chat and never
  touches the in-flight map, which \<^verbatim>\<open>wipeDatabase\<close> clears (line 237). A chat deleted while
  its answer is streaming leaves its entry behind: the in-flight message of the deleted
  chat is in memory with its id 2, and the store has no record under that id.
\<close>

theorem C8_orphan_after_deleteChat:
  "ongoing_view (run [Partial ''He'' (Some 1), StartNewChat ''b'' ''m'', DeleteChat (Some 1)]
       session_asked) =
     [(Some 1, \<lparr>msg_id = Some 2, msg_chatId = Some 1, msg_role = Assistant, msg_content = ''He'',
                msg_meta = None, msg_context = None, msg_createdAt = 0\<rparr>)] \<and>
   find_message 2 (store (run [Partial ''He'' (Some 1), StartNewChat ''b'' ''m'',
       DeleteChat (Some 1)] session_asked)) = None \<and>
   find_message 2 (store (run [Partial ''He'' (Some 1), StartNewChat ''b'' ''m''] session_asked)) =
     Some \<lparr>msg_id = Some 2, msg_chatId = Some 1, msg_role = Assistant, msg_content = ''He'',
           msg_meta = None, msg_context = None, msg_createdAt = 0\<rparr>"
  by (simp add: eval_defs)

end
